theory Spec2Isabelle
  imports Main "HOL-Library.Word"
begin

unbundle bit_operations_syntax

section \<open>Lowering of AMDGPU raw buffer operations to ROCDL intrinsics\<close>

text \<open>
  The development embeds \<^verbatim>\<open>RawBufferOpLowering::matchAndRewrite\<close> of
  \<^verbatim>\<open>mlir/lib/Conversion/AMDGPUToROCDL/AMDGPUToROCDL.cpp\<close>. The pattern is an
  emitter: it reads one raw buffer operation and creates LLVM dialect operations. The
  created operations are kept as terms of the datatype \<open>val\<close>, one constructor per
  \<^verbatim>\<open>rewriter.create<...>\<close> of the source, so that the result of the embedded
  function is the emitted code itself.
\<close>

subsection \<open>Types and values\<close>

text \<open>
  The types the pattern inspects or builds: integers and floats of a bit width, the index
  type, one-dimensional vectors of \<open>N\<close> integer or float elements, and the two LLVM
  types of the converted memref (descriptor struct and pointer), which are opaque here.
\<close>

datatype elem_type = IntegerType nat | FloatType nat

datatype mlir_type =
    Scalar elem_type
  | IndexType
  | VectorType nat elem_type
  | LLVMStructType
  | LLVMPointerType

fun getIntOrFloatBitWidth :: "elem_type \<Rightarrow> nat" where
  "getIntOrFloatBitWidth (IntegerType w) = w"
| "getIntOrFloatBitWidth (FloatType w) = w"

abbreviation i32 :: mlir_type where "i32 \<equiv> Scalar (IntegerType 32)"
abbreviation i64 :: mlir_type where "i64 \<equiv> Scalar (IntegerType 64)"

text \<open>
  Modelled from the spec: \<^verbatim>\<open>LLVMTypeConverter::convertType\<close> is not part of the
  source file. The spec names the wire types by the builtin types themselves (a scalar
  integer of width \<open>total\<close>, a vector of 32-bit integers), so the conversion of the
  types used here is the identity.
\<close>

definition convertType :: "mlir_type \<Rightarrow> mlir_type" where
  "convertType t = t"

text \<open>
  An operand of the operation is an SSA value defined outside the pattern: a name and a
  type. \<^verbatim>\<open>Value\<close> is a nullable handle in the source; where the source relies on
  that, the model uses \<open>val option\<close>.
\<close>

type_synonym ssa = "string \<times> mlir_type"

datatype val =
    Arg ssa
  | ConstantOp mlir_type int
  | UndefOp mlir_type
  | PtrToIntOp mlir_type val
  | TruncOp mlir_type val
  | LShrOp val val
  | AndOp mlir_type val val
  | MulOp val val
  | AddOp val val
  | MaximumOp val val
  | InsertElementOp mlir_type val val val
  | BitcastOp mlir_type val
  | DescAlignedPtr val
  | DescSize val nat
  | DescStride val nat
  | DescOffset val
  | LoweredResult mlir_type nat

text \<open>
  \<open>DescAlignedPtr\<close>, \<open>DescSize\<close>, \<open>DescStride\<close> and \<open>DescOffset\<close> are the reads
  of \<^verbatim>\<open>MemRefDescriptor::alignedPtr\<close>, \<^verbatim>\<open>size\<close>, \<^verbatim>\<open>stride\<close> and
  \<^verbatim>\<open>offset\<close>; \<open>LoweredResult t k\<close> is \<^verbatim>\<open>lowered->getResult(k)\<close>,
  of the result type \<open>t\<close> the intrinsic was created with.
\<close>

definition createI32Constant :: "32 word \<Rightarrow> val" where
  "createI32Constant v = ConstantOp i32 (sint v)"

definition createIndexConstant :: "nat \<Rightarrow> val" where
  "createIndexConstant n = ConstantOp IndexType (int n)"

subsection \<open>The operation and its memref type\<close>

text \<open>
  Sizes, strides and the offset are \<^verbatim>\<open>int64_t\<close> in the source, with a sentinel for
  a value known only at run time (\<^verbatim>\<open>ShapedType::isDynamicStrideOrOffset\<close>,
  \<^verbatim>\<open>hasStaticShape\<close>). The sentinel is the constructor \<open>Dynamic\<close>.
\<close>

datatype extent = Dynamic | Static int

fun isDynamic :: "extent \<Rightarrow> bool" where
  "isDynamic Dynamic = True"
| "isDynamic (Static _) = False"

text \<open>
  \<open>stridesAndOffset\<close> is the outcome of \<^verbatim>\<open>getStridesAndOffset\<close> on the type:
  \<open>None\<close> when the layout has no strided form. \<open>elementTypeBitWidth\<close> is the
  \<^verbatim>\<open>unsigned\<close> that \<^verbatim>\<open>getElementTypeBitWidth\<close> returns.
\<close>

record memref_type =
  elementTypeBitWidth :: "32 word"
  shape :: "extent list"
  stridesAndOffset :: "(extent list \<times> extent) option"

definition getRank :: "memref_type \<Rightarrow> nat" where
  "getRank t = length (shape t)"

definition hasStaticShape :: "memref_type \<Rightarrow> bool" where
  "hasStaticShape t = list_all (\<lambda>d. \<not> isDynamic d) (shape t)"

text \<open>
  \<^verbatim>\<open>getNumElements\<close> is the product of the sizes; the source calls it under
  \<^verbatim>\<open>hasStaticShape\<close> only, where no size is \<open>Dynamic\<close>.
\<close>

fun staticSize :: "extent \<Rightarrow> int" where
  "staticSize (Static n) = n"
| "staticSize Dynamic = 1"

definition getNumElements :: "memref_type \<Rightarrow> int" where
  "getNumElements t = prod_list (map staticSize (shape t))"

record chipset =
  majorVersion :: nat
  minorVersion :: nat

datatype op_kind = RawBufferLoadOp | RawBufferStoreOp | RawBufferAtomicFaddOp

datatype intrinsic =
  ROCDL_RawBufferLoadOp | ROCDL_RawBufferStoreOp | ROCDL_RawBufferAtomicFAddOp

text \<open>The pairing of \<^verbatim>\<open>populateAMDGPUToROCDLConversionPatterns\<close>.\<close>

fun intrinsicOf :: "op_kind \<Rightarrow> intrinsic" where
  "intrinsicOf RawBufferLoadOp = ROCDL_RawBufferLoadOp"
| "intrinsicOf RawBufferStoreOp = ROCDL_RawBufferStoreOp"
| "intrinsicOf RawBufferAtomicFaddOp = ROCDL_RawBufferAtomicFAddOp"

record raw_buffer_op =
  kind :: op_kind
  memrefType :: memref_type
  memref :: ssa
  odsOperand0 :: ssa
  resultTypes :: "mlir_type list"
  indices :: "ssa list"
  boundsCheck :: bool
  indexOffset :: "32 word option"
  sgprOffset :: "ssa option"

subsection \<open>Outcome\<close>

text \<open>
  The four \<^verbatim>\<open>emitOpError\<close> exits of the source, in its order, and the two range
  checks of the containers it indexes (\<^verbatim>\<open>getODSResults(0)[0]\<close>,
  \<^verbatim>\<open>strides[i]\<close>), \<^verbatim>\<open>TruncOp\<close> on a null \<^verbatim>\<open>maxIndex\<close> included.
\<close>

datatype error =
    RequiresGCNOrHigher
  | TotalWidthTooLarge nat
  | DoesNotFitIntoWords
  | NonStrideOffsetMemref
  | AssertionFailure

datatype rewrite = ReplaceOp val | EraseOp

record lowering =
  callee :: intrinsic
  callResultTypes :: "mlir_type list"
  args :: "val option list"
  rewrite :: rewrite

subsection \<open>Width adaptation\<close>

text \<open>\<^verbatim>\<open>wantedDataType.dyn_cast<VectorType>()\<close> succeeds.\<close>

fun isVectorType :: "mlir_type \<Rightarrow> bool" where
  "isVectorType (VectorType n e) = True"
| "isVectorType t = False"

definition maxVectorOpWidth :: nat where
  "maxVectorOpWidth = 128"

text \<open>
  \<^verbatim>\<open>uint32_t totalBits = elemBits * dataVector.getNumElements()\<close>: the product is
  stored in 32 bits.
\<close>

definition totalBitsOf :: "nat \<Rightarrow> elem_type \<Rightarrow> nat" where
  "totalBitsOf n e = (getIntOrFloatBitWidth e * n) mod 2 ^ 32"

fun llvmBufferValType :: "mlir_type \<Rightarrow> error + mlir_type" where
  "llvmBufferValType (VectorType n e) =
     (let elemBits = getIntOrFloatBitWidth e;
          totalBits = totalBitsOf n e
      in if totalBits > maxVectorOpWidth then Inl (TotalWidthTooLarge totalBits)
         else if elemBits < 32 then
           (if totalBits > 32 then
              (if totalBits mod 32 \<noteq> 0 then Inl DoesNotFitIntoWords
               else Inr (convertType (VectorType (totalBits div 32) (IntegerType 32))))
            else Inr (convertType (Scalar (IntegerType totalBits))))
         else Inr (convertType (VectorType n e)))"
| "llvmBufferValType t = Inr (convertType t)"

subsection \<open>Buffer resource descriptor\<close>

definition elementByteWidth :: "memref_type \<Rightarrow> int" where
  "elementByteWidth t = int (unat (elementTypeBitWidth t) div 8)"

definition byteWidthConst :: "memref_type \<Rightarrow> val" where
  "byteWidthConst t = createI32Constant (word_of_int (elementByteWidth t))"

definition ptrAsInt :: "val \<Rightarrow> val" where
  "ptrAsInt m = PtrToIntOp (convertType i64) (DescAlignedPtr m)"

definition lowHalf :: "val \<Rightarrow> val" where
  "lowHalf m = TruncOp (convertType i32) (ptrAsInt m)"

definition highHalfShifted :: "val \<Rightarrow> val" where
  "highHalfShifted m =
     TruncOp (convertType i32) (LShrOp (ptrAsInt m) (ConstantOp (convertType i64) 32))"

definition highHalfTruncated :: "val \<Rightarrow> val" where
  "highHalfTruncated m =
     AndOp (convertType i32) (highHalfShifted m) (createI32Constant 0x0000ffff)"

text \<open>The loop over the dimensions of a memref without static shape.\<close>

fun maxIndexLoop :: "val \<Rightarrow> val \<Rightarrow> nat list \<Rightarrow> val option \<Rightarrow> val option" where
  "maxIndexLoop m bwc [] maxIndex = maxIndex"
| "maxIndexLoop m bwc (i # is) maxIndex =
     (let size = DescSize m i;
          stride = MulOp (DescStride m i) bwc;
          maxThisDim = MulOp size stride
      in maxIndexLoop m bwc is
           (Some (case maxIndex of Some mx \<Rightarrow> MaximumOp mx maxThisDim
                                 | None \<Rightarrow> maxThisDim)))"

definition numRecords :: "memref_type \<Rightarrow> val \<Rightarrow> error + val" where
  "numRecords t m =
     (if hasStaticShape t then
        Inr (createI32Constant (word_of_int (getNumElements t * elementByteWidth t)))
      else
        (case maxIndexLoop m (byteWidthConst t) [0 ..< getRank t] None of
           None \<Rightarrow> Inl AssertionFailure
         | Some maxIndex \<Rightarrow> Inr (TruncOp (convertType i32) maxIndex)))"

definition word3 :: "chipset \<Rightarrow> bool \<Rightarrow> 32 word" where
  "word3 c bc =
     (let w = push_bit 12 7 OR push_bit 15 4
      in if majorVersion c = 10 then
           (let w1 = w OR push_bit 24 1;
                oob = (if bc then 3 else 2)
            in w1 OR push_bit 28 oob)
         else w)"

definition resource :: "chipset \<Rightarrow> bool \<Rightarrow> val \<Rightarrow> val \<Rightarrow> val" where
  "resource c bc m nr =
     (let llvm4xI32 = convertType (VectorType 4 (IntegerType 32));
          r0 = UndefOp llvm4xI32;
          r1 = InsertElementOp llvm4xI32 r0 (lowHalf m) (createIndexConstant 0);
          r2 = InsertElementOp llvm4xI32 r1 (highHalfTruncated m) (createIndexConstant 1);
          r3 = InsertElementOp llvm4xI32 r2 nr (createIndexConstant 2)
      in InsertElementOp llvm4xI32 r3 (createI32Constant (word3 c bc)) (createIndexConstant 3))"

subsection \<open>Offsets\<close>

text \<open>
  The byte stride of dimension \<open>i\<close>: a product with the run-time stride field when
  \<^verbatim>\<open>strides[i]\<close> is dynamic, a constant otherwise.
\<close>

definition strideOp :: "memref_type \<Rightarrow> val \<Rightarrow> extent \<Rightarrow> nat \<Rightarrow> val" where
  "strideOp t m s i =
     (case s of
        Dynamic \<Rightarrow> MulOp (DescStride m i) (byteWidthConst t)
      | Static k \<Rightarrow> createI32Constant (word_of_int (k * elementByteWidth t)))"

text \<open>
  The loop over \<^verbatim>\<open>llvm::enumerate(adaptor.getIndices())\<close>; \<^verbatim>\<open>strides[i]\<close> is
  checked against the length of \<open>strides\<close>.
\<close>

fun voffsetLoop ::
  "memref_type \<Rightarrow> val \<Rightarrow> extent list \<Rightarrow> (nat \<times> ssa) list \<Rightarrow> val option \<Rightarrow> error + val option"
where
  "voffsetLoop t m strides [] voffset = Inr voffset"
| "voffsetLoop t m strides ((i, idx) # rest) voffset =
     (if i < length strides then
        (let index = MulOp (Arg idx) (strideOp t m (strides ! i) i)
         in voffsetLoop t m strides rest
              (Some (case voffset of Some v \<Rightarrow> AddOp v index | None \<Rightarrow> index)))
      else Inl AssertionFailure)"

text \<open>
  \<^verbatim>\<open>int32_t indexOffset = *gpuOp.getIndexOffset() * elementByteWidth\<close>, the attribute
  being a \<^verbatim>\<open>uint32_t\<close>.
\<close>

definition extraOffsetConst :: "memref_type \<Rightarrow> 32 word \<Rightarrow> val" where
  "extraOffsetConst t off = createI32Constant (word_of_int (uint off * elementByteWidth t))"

definition extraOffset :: "memref_type \<Rightarrow> 32 word option \<Rightarrow> val option \<Rightarrow> val option" where
  "extraOffset t io voffset =
     (case io of
        None \<Rightarrow> voffset
      | Some off \<Rightarrow>
          Some (case voffset of Some v \<Rightarrow> AddOp v (extraOffsetConst t off)
                              | None \<Rightarrow> extraOffsetConst t off))"

definition voffsetArg ::
  "memref_type \<Rightarrow> val \<Rightarrow> extent list \<Rightarrow> ssa list \<Rightarrow> 32 word option \<Rightarrow> error + val option"
where
  "voffsetArg t m strides idxs io =
     (case voffsetLoop t m strides (enumerate 0 idxs) None of
        Inl e \<Rightarrow> Inl e
      | Inr voffset \<Rightarrow> Inr (extraOffset t io voffset))"

definition sgprOffsetArg :: "val \<Rightarrow> extent \<Rightarrow> ssa option \<Rightarrow> val" where
  "sgprOffsetArg m offset so =
     (let sgpr = (case so of Some s \<Rightarrow> Arg s | None \<Rightarrow> createI32Constant 0)
      in case offset of
           Dynamic \<Rightarrow> AddOp (DescOffset m) sgpr
         | Static k \<Rightarrow>
             (if k > 0 then AddOp sgpr (createI32Constant (word_of_int k)) else sgpr))"

subsection \<open>The pattern\<close>

definition storeData :: "raw_buffer_op \<Rightarrow> ssa option" where
  "storeData gpuOp =
     (if odsOperand0 gpuOp = memref gpuOp then None else Some (odsOperand0 gpuOp))"

definition wantedDataType :: "raw_buffer_op \<Rightarrow> error + mlir_type" where
  "wantedDataType gpuOp =
     (case storeData gpuOp of
        Some sd \<Rightarrow> Inr (snd sd)
      | None \<Rightarrow>
          (case resultTypes gpuOp of
             [] \<Rightarrow> Inl AssertionFailure
           | ty # _ \<Rightarrow> Inr ty))"

definition storeArgs :: "raw_buffer_op \<Rightarrow> mlir_type \<Rightarrow> mlir_type \<Rightarrow> val option list" where
  "storeArgs gpuOp bufTy llvmWanted =
     (case storeData gpuOp of
        Some sd \<Rightarrow>
          (if bufTy \<noteq> llvmWanted then [Some (BitcastOp bufTy (Arg sd))] else [Some (Arg sd)])
      | None \<Rightarrow> [])"

definition finish :: "raw_buffer_op \<Rightarrow> mlir_type \<Rightarrow> mlir_type \<Rightarrow> rewrite" where
  "finish gpuOp bufTy llvmWanted =
     (if length (resultTypes gpuOp) = 1 then
        ReplaceOp (if bufTy \<noteq> llvmWanted
                   then BitcastOp llvmWanted (LoweredResult bufTy 0)
                   else LoweredResult bufTy 0)
      else EraseOp)"

text \<open>
  \<^verbatim>\<open>matchAndRewrite\<close>, with its exits in the order of the source: the chipset, the
  data type, width adaptation, the layout, and then the descriptor and the offsets. A
  success is the call of the intrinsic (callee, result types, operands) and what replaces
  the operation.
\<close>

definition matchAndRewrite :: "chipset \<Rightarrow> raw_buffer_op \<Rightarrow> error + lowering" where
  "matchAndRewrite c gpuOp =
     (if majorVersion c < 9 then Inl RequiresGCNOrHigher
      else case wantedDataType gpuOp of
        Inl e \<Rightarrow> Inl e
      | Inr wanted \<Rightarrow>
         (let llvmWanted = convertType wanted;
              t = memrefType gpuOp;
              m = Arg (memref gpuOp)
          in case llvmBufferValType wanted of
               Inl e \<Rightarrow> Inl e
             | Inr bufTy \<Rightarrow>
                (case stridesAndOffset t of
                   None \<Rightarrow> Inl NonStrideOffsetMemref
                 | Some (strides, offset) \<Rightarrow>
                    (case numRecords t m of
                       Inl e \<Rightarrow> Inl e
                     | Inr nr \<Rightarrow>
                        (case voffsetArg t m strides (indices gpuOp) (indexOffset gpuOp) of
                           Inl e \<Rightarrow> Inl e
                         | Inr voffset \<Rightarrow>
                            Inr \<lparr> callee = intrinsicOf (kind gpuOp),
                                  callResultTypes =
                                    replicate (length (resultTypes gpuOp)) bufTy,
                                  args = storeArgs gpuOp bufTy llvmWanted @
                                         [Some (resource c (boundsCheck gpuOp) m nr),
                                          voffset,
                                          Some (sgprOffsetArg m offset (sgprOffset gpuOp)),
                                          Some (createI32Constant 0)],
                                  rewrite = finish gpuOp bufTy llvmWanted \<rparr>)))))"

text \<open>The operands of the emitted call, counted from the end of the argument list.\<close>

definition descriptorArg :: "lowering \<Rightarrow> val option" where
  "descriptorArg r = (case rev (args r) of _ # _ # _ # d # _ \<Rightarrow> d | _ \<Rightarrow> None)"

definition sgprOffsetOperand :: "lowering \<Rightarrow> val option" where
  "sgprOffsetOperand r = (case rev (args r) of _ # s # _ \<Rightarrow> s | _ \<Rightarrow> None)"

text \<open>The data operand: the first of five operands, absent for a load.\<close>

definition dataOperand :: "lowering \<Rightarrow> val option" where
  "dataOperand r = (case args r of [d, _, _, _, _] \<Rightarrow> d | _ \<Rightarrow> None)"

text \<open>
  The scalar offset operand of the lowered operation, \<open>None\<close> when the lowering fails.
\<close>

definition loweredSgprOffset :: "chipset \<Rightarrow> raw_buffer_op \<Rightarrow> val option" where
  "loweredSgprOffset c gpuOp =
     (case matchAndRewrite c gpuOp of Inl e \<Rightarrow> None | Inr r \<Rightarrow> sgprOffsetOperand r)"

text \<open>
  The element a chain of \<^verbatim>\<open>InsertElementOp\<close> holds at position \<open>n\<close>: the
  descriptor word \<open>n\<close>.
\<close>

fun extractElement :: "val \<Rightarrow> nat \<Rightarrow> val option" where
  "extractElement (InsertElementOp t vec x (ConstantOp IndexType k)) n =
     (if k = int n then Some x else extractElement vec n)"
| "extractElement _ n = None"

text \<open>Word \<open>n\<close> of the descriptor of the lowered operation.\<close>

definition loweredWord :: "chipset \<Rightarrow> raw_buffer_op \<Rightarrow> nat \<Rightarrow> val option" where
  "loweredWord c gpuOp n =
     (case matchAndRewrite c gpuOp of
        Inl e \<Rightarrow> None
      | Inr r \<Rightarrow> (case descriptorArg r of None \<Rightarrow> None | Some d \<Rightarrow> extractElement d n))"

subsection \<open>Meaning of the emitted operations\<close>

text \<open>
  Modelled from the spec: the LLVM dialect operations and the memref descriptor are
  defined outside the source file. The spec gives the sizes, strides and offset of the
  array as unsigned integers without a width, and the descriptor words and the two offset
  operands as 32-bit values. So a value of type \<open>iN\<close> is an unsigned integer below
  \<open>2^N\<close>, and a value of the index type (a field of the descriptor) is a natural number.
  The source names no result type when it creates \<^verbatim>\<open>MulOp\<close>, \<^verbatim>\<open>AddOp\<close>,
  \<^verbatim>\<open>MaximumOp\<close> and \<^verbatim>\<open>LShrOp\<close>: the result has the type of the first operand.
  Each operation computes the product, sum, maximum, shift or mask the spec names and
  keeps the bits of its result type. The run-time state is the aligned pointer, the
  fields of the descriptor, and the values of the scalar operands.
\<close>

record env =
  alignedPtrV :: "64 word"
  sizeV :: "nat \<Rightarrow> nat"
  strideV :: "nat \<Rightarrow> nat"
  offsetV :: nat
  argV :: "string \<Rightarrow> int"

fun typeOf :: "val \<Rightarrow> mlir_type" where
  "typeOf (Arg a) = snd a"
| "typeOf (ConstantOp t v) = t"
| "typeOf (UndefOp t) = t"
| "typeOf (PtrToIntOp t v) = t"
| "typeOf (TruncOp t v) = t"
| "typeOf (LShrOp a b) = typeOf a"
| "typeOf (AndOp t a b) = t"
| "typeOf (MulOp a b) = typeOf a"
| "typeOf (AddOp a b) = typeOf a"
| "typeOf (MaximumOp a b) = typeOf a"
| "typeOf (InsertElementOp t v x p) = t"
| "typeOf (BitcastOp t v) = t"
| "typeOf (DescAlignedPtr m) = LLVMPointerType"
| "typeOf (DescSize m i) = IndexType"
| "typeOf (DescStride m i) = IndexType"
| "typeOf (DescOffset m) = IndexType"
| "typeOf (LoweredResult t k) = t"

text \<open>The integer \<open>x\<close> as a value of the type: its low \<open>N\<close> bits for \<open>iN\<close>.\<close>

fun fit :: "mlir_type \<Rightarrow> int \<Rightarrow> int option" where
  "fit (Scalar (IntegerType w)) x = Some (take_bit w x)"
| "fit IndexType x = Some x"
| "fit _ x = None"

definition lift2 ::
  "mlir_type \<Rightarrow> (int \<Rightarrow> int \<Rightarrow> int) \<Rightarrow> int option \<Rightarrow> int option \<Rightarrow> int option" where
  "lift2 t f a b =
     (case a of None \<Rightarrow> None
      | Some x \<Rightarrow> (case b of None \<Rightarrow> None | Some y \<Rightarrow> fit t (f x y)))"

definition lift1 :: "mlir_type \<Rightarrow> int option \<Rightarrow> int option" where
  "lift1 t a = (case a of None \<Rightarrow> None | Some x \<Rightarrow> fit t x)"

fun eval :: "env \<Rightarrow> val \<Rightarrow> int option" where
  "eval s (Arg a) = fit (snd a) (argV s (fst a))"
| "eval s (ConstantOp t v) = fit t v"
| "eval s (UndefOp t) = None"
| "eval s (PtrToIntOp t v) = lift1 t (eval s v)"
| "eval s (TruncOp t v) = lift1 t (eval s v)"
| "eval s (LShrOp a b) =
     lift2 (typeOf a) (\<lambda>x y. drop_bit (nat y) x) (eval s a) (eval s b)"
| "eval s (AndOp t a b) = lift2 t (\<lambda>x y. x AND y) (eval s a) (eval s b)"
| "eval s (MulOp a b) = lift2 (typeOf a) (\<lambda>x y. x * y) (eval s a) (eval s b)"
| "eval s (AddOp a b) = lift2 (typeOf a) (\<lambda>x y. x + y) (eval s a) (eval s b)"
| "eval s (MaximumOp a b) = lift2 (typeOf a) max (eval s a) (eval s b)"
| "eval s (InsertElementOp t v x p) = None"
| "eval s (BitcastOp t v) = None"
| "eval s (DescAlignedPtr m) = Some (uint (alignedPtrV s))"
| "eval s (DescSize m i) = Some (int (sizeV s i))"
| "eval s (DescStride m i) = Some (int (strideV s i))"
| "eval s (DescOffset m) = Some (int (offsetV s))"
| "eval s (LoweredResult t k) = None"

text \<open>
  Modelled from the spec: the intrinsic takes \<^verbatim>\<open>voffset\<close> and \<^verbatim>\<open>sgprOffset\<close> as
  32-bit values. \<open>offsetOperand s v\<close> is the 32-bit value it receives for the operand
  \<open>v\<close>.
\<close>

definition offsetOperand :: "env \<Rightarrow> val \<Rightarrow> 32 word option" where
  "offsetOperand s v = map_option word_of_int (eval s v)"

text \<open>
  The byte stride of dimension \<open>i\<close> as the spec has it: the stride, static or read
  from the descriptor, times the element byte width.
\<close>

definition byteStrideV :: "env \<Rightarrow> memref_type \<Rightarrow> extent \<Rightarrow> nat \<Rightarrow> int" where
  "byteStrideV s t d i =
     (case d of
        Dynamic \<Rightarrow> int (strideV s i) * elementByteWidth t
      | Static k \<Rightarrow> k * elementByteWidth t)"

text \<open>
  Modelled from the spec: \<^verbatim>\<open>BitcastOp\<close> is a pure reinterpretation of the same bits,
  defined between types of the same size; a store writes the bit pattern of its data
  operand, and a load from the same location returns that pattern as the result of the
  intrinsic. \<open>evalBits b v\<close> is the bit pattern of \<open>v\<close> when its one input (the operand
  of the operation, or the result of the intrinsic) holds \<open>b\<close>; an input holds only
  patterns of the size of its type. \<open>storeThenLoad st ld b\<close> is the pattern that
  replaces the load \<open>ld\<close> after the store \<open>st\<close> of a value with pattern \<open>b\<close>.
\<close>

fun typeBits :: "mlir_type \<Rightarrow> nat option" where
  "typeBits (Scalar e) = Some (getIntOrFloatBitWidth e)"
| "typeBits (VectorType n e) = Some (n * getIntOrFloatBitWidth e)"
| "typeBits _ = None"

definition holds :: "mlir_type \<Rightarrow> bool list \<Rightarrow> bool list option" where
  "holds t b = (if typeBits t = Some (length b) then Some b else None)"

fun evalBits :: "bool list \<Rightarrow> val \<Rightarrow> bool list option" where
  "evalBits b (Arg a) = holds (snd a) b"
| "evalBits b (LoweredResult t k) = holds t b"
| "evalBits b (BitcastOp t v) =
     (case evalBits b v of None \<Rightarrow> None | Some w \<Rightarrow> holds t w)"
| "evalBits b _ = None"

definition storeThenLoad :: "lowering \<Rightarrow> lowering \<Rightarrow> bool list \<Rightarrow> bool list option" where
  "storeThenLoad st ld b =
     (case dataOperand st of
        None \<Rightarrow> None
      | Some d \<Rightarrow>
          (case evalBits b d of
             None \<Rightarrow> None
           | Some stored \<Rightarrow>
               (case rewrite ld of
                  ReplaceOp v \<Rightarrow> evalBits stored v
                | EraseOp \<Rightarrow> None)))"

subsection \<open>Sample inputs\<close>

definition gfx803 :: chipset where "gfx803 = \<lparr>majorVersion = 8, minorVersion = 3\<rparr>"
definition gfx908 :: chipset where "gfx908 = \<lparr>majorVersion = 9, minorVersion = 8\<rparr>"
definition gfx1030 :: chipset where "gfx1030 = \<lparr>majorVersion = 10, minorVersion = 48\<rparr>"

text \<open>A load of one \<^verbatim>\<open>f32\<close> from \<^verbatim>\<open>memref<4x8xf32>\<close> at \<^verbatim>\<open>[i, j]\<close>.\<close>

definition memref_4x8xf32 :: memref_type where
  "memref_4x8xf32 =
     \<lparr>elementTypeBitWidth = 32, shape = [Static 4, Static 8],
      stridesAndOffset = Some ([Static 8, Static 1], Static 0)\<rparr>"

definition load_4x8 :: raw_buffer_op where
  "load_4x8 =
     \<lparr>kind = RawBufferLoadOp, memrefType = memref_4x8xf32,
      memref = (''buf'', LLVMStructType), odsOperand0 = (''buf'', LLVMStructType),
      resultTypes = [Scalar (FloatType 32)],
      indices = [(''i'', i32), (''j'', i32)],
      boundsCheck = True, indexOffset = None, sgprOffset = None\<rparr>"

text \<open>
  A run-time state: a base address with bits above bit 47 set, the descriptor fields of
  \<^verbatim>\<open>memref<4x8xf32>\<close>, and the index values \<^verbatim>\<open>i = 2\<close>, \<^verbatim>\<open>j = 3\<close>.
\<close>

definition env0 :: env where
  "env0 =
     \<lparr>alignedPtrV = 0xFFFF800012345678,
      sizeV = (\<lambda>i. if i = 0 then 4 else 8),
      strideV = (\<lambda>i. if i = 0 then 8 else 1),
      offsetV = 0,
      argV = (\<lambda>n. if n = ''i'' then 2 else 3)\<rparr>"

text \<open>A load of one \<^verbatim>\<open>i256\<close> from \<^verbatim>\<open>memref<4xi256>\<close>.\<close>

definition load_i256 :: raw_buffer_op where
  "load_i256 =
     \<lparr>kind = RawBufferLoadOp,
      memrefType = \<lparr>elementTypeBitWidth = 256, shape = [Static 4],
                    stridesAndOffset = Some ([Static 1], Static 0)\<rparr>,
      memref = (''buf'', LLVMStructType), odsOperand0 = (''buf'', LLVMStructType),
      resultTypes = [Scalar (IntegerType 256)],
      indices = [(''i'', i32)],
      boundsCheck = True, indexOffset = None, sgprOffset = None\<rparr>"

text \<open>
  A load of one \<^verbatim>\<open>i1\<close> from \<^verbatim>\<open>memref<4x8xi1>\<close> with index offset 5, and the
  type \<^verbatim>\<open>memref<16xi12>\<close>.
\<close>

definition memref_4x8xi1 :: memref_type where
  "memref_4x8xi1 =
     \<lparr>elementTypeBitWidth = 1, shape = [Static 4, Static 8],
      stridesAndOffset = Some ([Static 8, Static 1], Static 0)\<rparr>"

definition load_i1 :: raw_buffer_op where
  "load_i1 =
     \<lparr>kind = RawBufferLoadOp, memrefType = memref_4x8xi1,
      memref = (''buf'', LLVMStructType), odsOperand0 = (''buf'', LLVMStructType),
      resultTypes = [Scalar (IntegerType 1)],
      indices = [(''i'', i32), (''j'', i32)],
      boundsCheck = True, indexOffset = Some 5, sgprOffset = None\<rparr>"

definition memref_16xi12 :: memref_type where
  "memref_16xi12 =
     \<lparr>elementTypeBitWidth = 12, shape = [Static 16],
      stridesAndOffset = Some ([Static 1], Static 0)\<rparr>"

text \<open>A store of a \<^verbatim>\<open>vector<8xf32>\<close> to \<^verbatim>\<open>memref<64xf32>\<close>.\<close>

definition store_8xf32 :: raw_buffer_op where
  "store_8xf32 =
     \<lparr>kind = RawBufferStoreOp,
      memrefType = \<lparr>elementTypeBitWidth = 32, shape = [Static 64],
                    stridesAndOffset = Some ([Static 1], Static 0)\<rparr>,
      memref = (''buf'', LLVMStructType),
      odsOperand0 = (''v'', VectorType 8 (FloatType 32)),
      resultTypes = [],
      indices = [(''i'', i32)],
      boundsCheck = True, indexOffset = None, sgprOffset = None\<rparr>"

text \<open>
  Loads from a one-dimensional memref whose layout has the static offset 0, a dynamic
  offset, the static offset 16 together with a dynamic offset operand \<^verbatim>\<open>j\<close>, and the
  static offset \<open>2^32 + 16\<close>.
\<close>

definition load_offset :: "extent \<Rightarrow> ssa option \<Rightarrow> raw_buffer_op" where
  "load_offset off so =
     \<lparr>kind = RawBufferLoadOp,
      memrefType = \<lparr>elementTypeBitWidth = 32, shape = [Static 64],
                    stridesAndOffset = Some ([Static 1], off)\<rparr>,
      memref = (''buf'', LLVMStructType), odsOperand0 = (''buf'', LLVMStructType),
      resultTypes = [Scalar (FloatType 32)],
      indices = [(''i'', i32)],
      boundsCheck = True, indexOffset = None, sgprOffset = so\<rparr>"

definition load_offset_0 :: raw_buffer_op where
  "load_offset_0 = load_offset (Static 0) None"

definition load_offset_dyn :: raw_buffer_op where
  "load_offset_dyn = load_offset Dynamic None"

definition load_offset_16 :: raw_buffer_op where
  "load_offset_16 = load_offset (Static 16) (Some (''j'', i32))"

definition load_offset_big :: raw_buffer_op where
  "load_offset_big = load_offset (Static 4294967312) None"

text \<open>
  A load from \<^verbatim>\<open>memref<?x8xf32>\<close> with a dynamic stride in dimension 0, and a
  run-time state in which dimension 0 has size 5 and stride 5, the offset is 7 and
  \<^verbatim>\<open>j\<close> is \<open>2^32 - 1\<close>.
\<close>

definition memref_dynx8xf32 :: memref_type where
  "memref_dynx8xf32 =
     \<lparr>elementTypeBitWidth = 32, shape = [Dynamic, Static 8],
      stridesAndOffset = Some ([Dynamic, Static 1], Static 0)\<rparr>"

definition load_dynx8 :: raw_buffer_op where
  "load_dynx8 =
     \<lparr>kind = RawBufferLoadOp, memrefType = memref_dynx8xf32,
      memref = (''buf'', LLVMStructType), odsOperand0 = (''buf'', LLVMStructType),
      resultTypes = [Scalar (FloatType 32)],
      indices = [(''i'', i32), (''j'', i32)],
      boundsCheck = True, indexOffset = None, sgprOffset = None\<rparr>"

definition env1 :: env where
  "env1 =
     \<lparr>alignedPtrV = 0x7F0012345678,
      sizeV = (\<lambda>i. if i = 0 then 5 else 8),
      strideV = (\<lambda>i. if i = 0 then 5 else 1),
      offsetV = 7,
      argV = (\<lambda>n. if n = ''i'' then 2 else 4294967295)\<rparr>"

text \<open>
  A load from the static \<^verbatim>\<open>memref<65536x65536xf32>\<close>, of \<open>2^32\<close> elements and
  \<open>2^34\<close> bytes.
\<close>

definition memref_64Kx64Kxf32 :: memref_type where
  "memref_64Kx64Kxf32 =
     \<lparr>elementTypeBitWidth = 32, shape = [Static 65536, Static 65536],
      stridesAndOffset = Some ([Static 65536, Static 1], Static 0)\<rparr>"

definition load_64Kx64K :: raw_buffer_op where
  "load_64Kx64K =
     \<lparr>kind = RawBufferLoadOp, memrefType = memref_64Kx64Kxf32,
      memref = (''buf'', LLVMStructType), odsOperand0 = (''buf'', LLVMStructType),
      resultTypes = [Scalar (FloatType 32)],
      indices = [(''i'', i32), (''j'', i32)],
      boundsCheck = True, indexOffset = None, sgprOffset = None\<rparr>"

text \<open>
  A load of the one element of the rank-0 \<^verbatim>\<open>memref<f32>\<close>: no index, no index
  offset.
\<close>

definition load_rank0 :: raw_buffer_op where
  "load_rank0 =
     \<lparr>kind = RawBufferLoadOp,
      memrefType = \<lparr>elementTypeBitWidth = 32, shape = [],
                    stridesAndOffset = Some ([], Static 0)\<rparr>,
      memref = (''buf'', LLVMStructType), odsOperand0 = (''buf'', LLVMStructType),
      resultTypes = [Scalar (FloatType 32)],
      indices = [],
      boundsCheck = True, indexOffset = None, sgprOffset = None\<rparr>"

text \<open>
  A store and a load of a vector of \<open>n\<close> \<^verbatim>\<open>i8\<close> on \<^verbatim>\<open>memref<64xi8>\<close>, and a
  load of a vector of \<open>n\<close> \<^verbatim>\<open>i32\<close> from \<^verbatim>\<open>memref<64xi32>\<close>.
\<close>

definition memref_64xi8 :: memref_type where
  "memref_64xi8 =
     \<lparr>elementTypeBitWidth = 8, shape = [Static 64],
      stridesAndOffset = Some ([Static 1], Static 0)\<rparr>"

definition store_i8_vector :: "nat \<Rightarrow> raw_buffer_op" where
  "store_i8_vector n =
     \<lparr>kind = RawBufferStoreOp, memrefType = memref_64xi8,
      memref = (''buf'', LLVMStructType),
      odsOperand0 = (''v'', VectorType n (IntegerType 8)),
      resultTypes = [],
      indices = [(''i'', i32)],
      boundsCheck = True, indexOffset = None, sgprOffset = None\<rparr>"

definition load_i8_vector :: "nat \<Rightarrow> raw_buffer_op" where
  "load_i8_vector n =
     \<lparr>kind = RawBufferLoadOp, memrefType = memref_64xi8,
      memref = (''buf'', LLVMStructType), odsOperand0 = (''buf'', LLVMStructType),
      resultTypes = [VectorType n (IntegerType 8)],
      indices = [(''i'', i32)],
      boundsCheck = True, indexOffset = None, sgprOffset = None\<rparr>"


section \<open>Properties\<close>

subsection \<open>Shape of a successful lowering\<close>

lemma maxIndexLoop_Some:
  "is \<noteq> [] \<or> acc \<noteq> None \<Longrightarrow> maxIndexLoop m b is acc \<noteq> None"
  by (induction "is" arbitrary: acc) (simp_all add: Let_def)

lemma hasStaticShape_Nil: "shape t = [] \<Longrightarrow> hasStaticShape t"
  by (simp add: hasStaticShape_def)

lemma numRecords_Inr: "\<exists>nr. numRecords t m = Inr nr"
proof (cases "hasStaticShape t")
  case True
  then show ?thesis by (simp add: numRecords_def)
next
  case False
  then have "shape t \<noteq> []" using hasStaticShape_Nil by blast
  then have "[0 ..< getRank t] \<noteq> []" by (simp add: getRank_def)
  then have "maxIndexLoop m (byteWidthConst t) [0 ..< getRank t] None \<noteq> None"
    by (rule maxIndexLoop_Some [OF disjI1])
  with False show ?thesis by (auto simp: numRecords_def)
qed

lemma voffsetLoop_Inr:
  "\<forall>p \<in> set ps. fst p < length strides \<Longrightarrow> \<exists>v. voffsetLoop t m strides ps acc = Inr v"
  by (induction ps arbitrary: acc) (auto simp: Let_def)

lemma fst_enumerate_less: "p \<in> set (enumerate 0 xs) \<Longrightarrow> fst p < length xs"
  by (auto simp: in_set_enumerate_eq)

lemma voffsetArg_Inr:
  assumes "length idxs \<le> length strides"
  shows "\<exists>v. voffsetArg t m strides idxs io = Inr v"
proof -
  have "\<forall>p \<in> set (enumerate 0 idxs). fst p < length strides"
    using assms fst_enumerate_less by fastforce
  then obtain v where "voffsetLoop t m strides (enumerate 0 idxs) None = Inr v"
    using voffsetLoop_Inr by blast
  then show ?thesis by (simp add: voffsetArg_def)
qed

lemma matchAndRewrite_Inr:
  assumes "matchAndRewrite c gpuOp = Inr r"
  shows "\<exists>wanted bufTy strides offset nr vo.
           9 \<le> majorVersion c \<and> wantedDataType gpuOp = Inr wanted \<and>
           llvmBufferValType wanted = Inr bufTy \<and>
           stridesAndOffset (memrefType gpuOp) = Some (strides, offset) \<and>
           numRecords (memrefType gpuOp) (Arg (memref gpuOp)) = Inr nr \<and>
           voffsetArg (memrefType gpuOp) (Arg (memref gpuOp)) strides (indices gpuOp)
             (indexOffset gpuOp) = Inr vo \<and>
           callee r = intrinsicOf (kind gpuOp) \<and>
           callResultTypes r = replicate (length (resultTypes gpuOp)) bufTy \<and>
           args r = storeArgs gpuOp bufTy (convertType wanted) @
                    [Some (resource c (boundsCheck gpuOp) (Arg (memref gpuOp)) nr), vo,
                     Some (sgprOffsetArg (Arg (memref gpuOp)) offset (sgprOffset gpuOp)),
                     Some (createI32Constant 0)] \<and>
           rewrite r = finish gpuOp bufTy (convertType wanted)"
  using assms
  by (auto simp: matchAndRewrite_def Let_def split: if_splits sum.splits option.splits)

lemma matchAndRewrite_succeeds:
  assumes "9 \<le> majorVersion c" and "wantedDataType gpuOp = Inr wanted"
    and "llvmBufferValType wanted = Inr bufTy"
    and "stridesAndOffset (memrefType gpuOp) = Some (strides, offset)"
    and "length (indices gpuOp) \<le> length strides"
  shows "\<exists>r. matchAndRewrite c gpuOp = Inr r"
proof -
  obtain nr where nr: "numRecords (memrefType gpuOp) (Arg (memref gpuOp)) = Inr nr"
    using numRecords_Inr by blast
  obtain vo where vo: "voffsetArg (memrefType gpuOp) (Arg (memref gpuOp)) strides
      (indices gpuOp) (indexOffset gpuOp) = Inr vo"
    using voffsetArg_Inr [OF assms(5)] by blast
  show ?thesis using assms(1-4) nr vo
    by (simp add: matchAndRewrite_def Let_def)
qed

lemma load_4x8_succeeds: "9 \<le> majorVersion c \<Longrightarrow> \<exists>r. matchAndRewrite c load_4x8 = Inr r"
  by (rule matchAndRewrite_succeeds [where wanted = "Scalar (FloatType 32)"
        and bufTy = "Scalar (FloatType 32)" and strides = "[Static 8, Static 1]"
        and offset = "Static 0"])
     (simp_all add: load_4x8_def memref_4x8xf32_def wantedDataType_def storeData_def
        convertType_def)

lemma extractElement_resource:
  "extractElement (resource c bc m nr) (Suc 0) = Some (highHalfTruncated m)"
  "extractElement (resource c bc m nr) 2 = Some nr"
  "extractElement (resource c bc m nr) 3 = Some (createI32Constant (word3 c bc))"
  by (simp_all add: resource_def Let_def createIndexConstant_def)

lemma descriptorArg_lowered:
  assumes "matchAndRewrite c gpuOp = Inr r"
  shows "\<exists>nr. numRecords (memrefType gpuOp) (Arg (memref gpuOp)) = Inr nr \<and>
           descriptorArg r = Some (resource c (boundsCheck gpuOp) (Arg (memref gpuOp)) nr)"
  using matchAndRewrite_Inr [OF assms] by (auto simp: descriptorArg_def)

subsection \<open>Values of constants, and width errors\<close>

lemma eval_createI32Constant: "eval s (createI32Constant w) = Some (uint w)"
  by (simp add: createI32Constant_def uint_sint)

lemma take_bit_word_of_int: "uint (word_of_int x :: 32 word) = take_bit 32 x"
  by (simp add: uint_word_of_int take_bit_eq_mod)

lemma elementByteWidth_bounds: "0 \<le> elementByteWidth t" "elementByteWidth t < 2 ^ 29"
proof -
  show "0 \<le> elementByteWidth t" by (simp add: elementByteWidth_def)
  have "unat (elementTypeBitWidth t) < 4294967296"
    using unsigned_less [of "elementTypeBitWidth t"] by simp
  then have "unat (elementTypeBitWidth t) div 8 < 536870912" by arith
  then show "elementByteWidth t < 2 ^ 29"
    unfolding elementByteWidth_def by simp
qed

lemma eval_byteWidthConst: "eval s (byteWidthConst t) = Some (elementByteWidth t)"
proof -
  have "take_bit 32 (elementByteWidth t) = elementByteWidth t"
    using elementByteWidth_bounds [of t] by (simp add: take_bit_int_eq_self)
  then show ?thesis
    by (simp add: byteWidthConst_def eval_createI32Constant take_bit_word_of_int)
qed

lemma typeOf_createI32Constant: "typeOf (createI32Constant w) = i32"
  by (simp add: createI32Constant_def)

lemma llvmBufferValType_not_vector:
  "\<not> isVectorType t \<Longrightarrow> llvmBufferValType t = Inr t"
  by (cases t) (simp_all add: convertType_def)

lemma matchAndRewrite_width_error:
  assumes "9 \<le> majorVersion c" and "wantedDataType gpuOp = Inr t"
  shows "llvmBufferValType t = Inl e \<Longrightarrow> matchAndRewrite c gpuOp = Inl e"
    and "llvmBufferValType t = Inr w \<Longrightarrow> matchAndRewrite c gpuOp \<noteq> Inl (TotalWidthTooLarge k)"
    and "llvmBufferValType t = Inr w \<Longrightarrow> matchAndRewrite c gpuOp \<noteq> Inl DoesNotFitIntoWords"
proof -
  show "llvmBufferValType t = Inl e \<Longrightarrow> matchAndRewrite c gpuOp = Inl e"
    using assms by (simp add: matchAndRewrite_def Let_def)
next
  assume w: "llvmBufferValType t = Inr w"
  obtain nr where nr: "numRecords (memrefType gpuOp) (Arg (memref gpuOp)) = Inr nr"
    using numRecords_Inr by blast
  have vo: "voffsetArg t' m strides idxs io \<noteq> Inl (TotalWidthTooLarge k) \<and>
            voffsetArg t' m strides idxs io \<noteq> Inl DoesNotFitIntoWords" for t' m strides idxs io
  proof -
    have "voffsetLoop t' m strides ps acc \<noteq> Inl (TotalWidthTooLarge k) \<and>
          voffsetLoop t' m strides ps acc \<noteq> Inl DoesNotFitIntoWords" for ps acc
      by (induction ps arbitrary: acc) (auto simp: Let_def split: if_splits)
    then show ?thesis
      by (auto simp: voffsetArg_def split: sum.splits)
  qed
  show "matchAndRewrite c gpuOp \<noteq> Inl (TotalWidthTooLarge k)"
    using assms w nr vo
    by (auto simp: matchAndRewrite_def Let_def split: option.splits sum.splits)
  show "matchAndRewrite c gpuOp \<noteq> Inl DoesNotFitIntoWords"
    using assms w nr vo
    by (auto simp: matchAndRewrite_def Let_def split: option.splits sum.splits)
qed

subsection \<open>Chipset gate\<close>

text \<open>
  C7. On a chipset whose major version is below 9 the lowering of every raw buffer
  operation, whatever its kind, data type, memref type and indices, fails with the error
  "Raw buffer ops require GCN or higher".
\<close>

theorem unsupported_chipset_fails:
  "majorVersion c < 9 \<Longrightarrow> matchAndRewrite c gpuOp = Inl RequiresGCNOrHigher"
  by (simp add: matchAndRewrite_def)

theorem unsupported_chipset_fails_witness:
  "majorVersion gfx803 < 9 \<and> matchAndRewrite gfx803 load_4x8 = Inl RequiresGCNOrHigher"
proof -
  have h: "majorVersion gfx803 < 9" by (simp add: gfx803_def)
  show ?thesis using h unsupported_chipset_fails [OF h, of load_4x8] by simp
qed

subsection \<open>Descriptor words 1 and 3\<close>

text \<open>
  C4. Word 3 of the descriptor of every lowered operation is a constant whose value is
  \<open>word3\<close>. Its bits 12 to 14 hold 7 and its bits 15 to 18 hold 4. On major version 10,
  bit 24 is set and bits 28 to 29 hold 3 when bounds checking is requested and 2
  otherwise; on every other major version bit 24 and bits 28 to 29 are zero, whatever the
  request.
\<close>

theorem word3_fields:
  "(matchAndRewrite c gpuOp = Inr r \<longrightarrow>
      (\<exists>res w. descriptorArg r = Some res \<and> extractElement res 3 = Some w \<and>
               w = ConstantOp i32 (sint (word3 c (boundsCheck gpuOp))) \<and>
               eval s w = Some (uint (word3 c (boundsCheck gpuOp))))) \<and>
   drop_bit 12 (word3 c bc) AND 7 = 7 \<and>
   drop_bit 15 (word3 c bc) AND 15 = 4 \<and>
   (majorVersion c = 10 \<longrightarrow>
      bit (word3 c bc) 24 \<and> drop_bit 28 (word3 c bc) AND 3 = (if bc then 3 else 2)) \<and>
   (majorVersion c \<noteq> 10 \<longrightarrow>
      \<not> bit (word3 c bc) 24 \<and> drop_bit 28 (word3 c bc) AND 3 = 0)"
proof -
  have "\<exists>res w. descriptorArg r = Some res \<and> extractElement res 3 = Some w \<and>
               w = ConstantOp i32 (sint (word3 c (boundsCheck gpuOp))) \<and>
               eval s w = Some (uint (word3 c (boundsCheck gpuOp)))"
    if lw: "matchAndRewrite c gpuOp = Inr r"
  proof -
    obtain res where res: "descriptorArg r = Some res"
      and w: "extractElement res 3 = Some (createI32Constant (word3 c (boundsCheck gpuOp)))"
      using descriptorArg_lowered [OF lw] by (auto simp: extractElement_resource)
    have "createI32Constant (word3 c (boundsCheck gpuOp)) =
          ConstantOp i32 (sint (word3 c (boundsCheck gpuOp)))"
      by (simp add: createI32Constant_def)
    moreover have "eval s (createI32Constant (word3 c (boundsCheck gpuOp))) =
                   Some (uint (word3 c (boundsCheck gpuOp)))"
      by (rule eval_createI32Constant)
    ultimately show ?thesis using res w by auto
  qed
  moreover have "drop_bit 12 (word3 c bc) AND 7 = 7" "drop_bit 15 (word3 c bc) AND 15 = 4"
    by (simp_all add: word3_def Let_def)
  moreover have "majorVersion c = 10 \<longrightarrow>
      bit (word3 c bc) 24 \<and> drop_bit 28 (word3 c bc) AND 3 = (if bc then 3 else 2)"
    by (simp add: word3_def Let_def bit_simps)
  moreover have "majorVersion c \<noteq> 10 \<longrightarrow>
      \<not> bit (word3 c bc) 24 \<and> drop_bit 28 (word3 c bc) AND 3 = 0"
    by (simp add: word3_def Let_def bit_simps)
  ultimately show ?thesis by blast
qed

theorem word3_fields_witness:
  "(\<exists>r. matchAndRewrite gfx1030 load_4x8 = Inr r \<and>
       (\<exists>res w. descriptorArg r = Some res \<and> extractElement res 3 = Some w \<and>
                w = ConstantOp i32 0x31027000 \<and> eval env0 w = Some 0x31027000)) \<and>
   (\<exists>r. matchAndRewrite gfx908 load_4x8 = Inr r \<and>
       (\<exists>res w. descriptorArg r = Some res \<and> extractElement res 3 = Some w \<and>
                w = ConstantOp i32 0x27000 \<and> eval env0 w = Some 0x27000)) \<and>
   majorVersion gfx1030 = 10 \<and> word3 gfx1030 True = 0x31027000 \<and>
   word3 gfx1030 False = 0x21027000 \<and>
   bit (word3 gfx1030 True) 24 \<and> drop_bit 28 (word3 gfx1030 True) AND 3 = 3 \<and>
   drop_bit 28 (word3 gfx1030 False) AND 3 = 2 \<and>
   majorVersion gfx908 \<noteq> 10 \<and> word3 gfx908 True = 0x27000 \<and>
   \<not> bit (word3 gfx908 True) 24 \<and> drop_bit 28 (word3 gfx908 True) AND 3 = 0"
proof -
  obtain r where r: "matchAndRewrite gfx1030 load_4x8 = Inr r"
    using load_4x8_succeeds [of gfx1030] by (auto simp: gfx1030_def)
  obtain r' where r': "matchAndRewrite gfx908 load_4x8 = Inr r'"
    using load_4x8_succeeds [of gfx908] by (auto simp: gfx908_def)
  have bc: "boundsCheck load_4x8 = True" by (simp add: load_4x8_def)
  have m: "majorVersion gfx1030 = 10" "majorVersion gfx908 \<noteq> 10"
    by (simp_all add: gfx1030_def gfx908_def)
  have w: "word3 gfx1030 True = 0x31027000" "word3 gfx1030 False = 0x21027000"
    "word3 gfx908 True = 0x27000"
    by (simp_all add: word3_def gfx1030_def gfx908_def)
  have 1: "\<exists>res w. descriptorArg r = Some res \<and> extractElement res 3 = Some w \<and>
                w = ConstantOp i32 0x31027000 \<and> eval env0 w = Some 0x31027000"
    using word3_fields [of gfx1030 load_4x8 r env0 True] r bc w(1) by simp
  have 2: "\<exists>res w. descriptorArg r' = Some res \<and> extractElement res 3 = Some w \<and>
                w = ConstantOp i32 0x27000 \<and> eval env0 w = Some 0x27000"
    using word3_fields [of gfx908 load_4x8 r' env0 True] r' bc w(3) by simp
  have 3: "bit (word3 gfx1030 True) 24 \<and> drop_bit 28 (word3 gfx1030 True) AND 3 = 3"
    using word3_fields [of gfx1030 load_4x8 r env0 True] m by simp
  have 4: "drop_bit 28 (word3 gfx1030 False) AND 3 = 2"
    using word3_fields [of gfx1030 load_4x8 r env0 False] m by simp
  have 5: "\<not> bit (word3 gfx908 True) 24 \<and> drop_bit 28 (word3 gfx908 True) AND 3 = 0"
    using word3_fields [of gfx908 load_4x8 r' env0 True] m by simp
  from r r' 1 2 3 4 5 m w show ?thesis by blast
qed



subsection \<open>Width adaptation\<close>

text \<open>
  C9. The 128-bit limit and the multiple-of-32 check apply to vector types only: for every
  data type that is not a vector, of any bit width, width adaptation succeeds with the
  wire type equal to the logical type, and the lowering of an operation on such a type
  never fails with either of the two width errors.
\<close>

theorem scalar_width_unchecked:
  "\<not> isVectorType t \<Longrightarrow>
     llvmBufferValType t = Inr t \<and>
     (wantedDataType gpuOp = Inr t \<longrightarrow>
        matchAndRewrite c gpuOp \<noteq> Inl (TotalWidthTooLarge k) \<and>
        matchAndRewrite c gpuOp \<noteq> Inl DoesNotFitIntoWords)"
proof -
  assume nv: "\<not> isVectorType t"
  then have w: "llvmBufferValType t = Inr t" by (rule llvmBufferValType_not_vector)
  have "matchAndRewrite c gpuOp \<noteq> Inl (TotalWidthTooLarge k) \<and>
        matchAndRewrite c gpuOp \<noteq> Inl DoesNotFitIntoWords"
    if wt: "wantedDataType gpuOp = Inr t"
  proof (cases "9 \<le> majorVersion c")
    case True
    then show ?thesis using matchAndRewrite_width_error(2,3) [OF True wt w] by blast
  next
    case False
    then show ?thesis by (simp add: matchAndRewrite_def)
  qed
  with w show ?thesis by blast
qed

theorem scalar_width_unchecked_witness:
  "\<not> isVectorType (Scalar (IntegerType 256)) \<and>
   llvmBufferValType (Scalar (IntegerType 256)) = Inr (Scalar (IntegerType 256)) \<and>
   wantedDataType load_i256 = Inr (Scalar (IntegerType 256)) \<and>
   matchAndRewrite gfx908 load_i256 \<noteq> Inl (TotalWidthTooLarge 256) \<and>
   matchAndRewrite gfx908 load_i256 \<noteq> Inl DoesNotFitIntoWords"
proof -
  have nv: "\<not> isVectorType (Scalar (IntegerType 256))" by simp
  have wt: "wantedDataType load_i256 = Inr (Scalar (IntegerType 256))"
    by (simp add: wantedDataType_def storeData_def load_i256_def)
  show ?thesis
    using nv wt scalar_width_unchecked [OF nv, of load_i256 gfx908 256] by simp
qed

text \<open>
  C5 (the total width is a 32-bit product). A data type that is not a vector is passed
  through unchanged. For a vector of \<open>n\<close> elements of \<open>B\<close> bits the source computes
  \<open>total\<close> as a 32-bit unsigned product, \<open>(n * B) mod 2^32\<close>, which is \<open>n * B\<close>
  whenever that is below \<open>2^32\<close>. Then: \<open>total > 128\<close> fails; otherwise \<open>B \<ge> 32\<close>
  keeps the logical type; \<open>B < 32\<close> and \<open>total \<le> 32\<close> gives the integer of width
  \<open>total\<close>; \<open>B < 32\<close> and \<open>total > 32\<close> fails unless \<open>total\<close> is a multiple of 32,
  and then gives the vector of \<open>total / 32\<close> 32-bit integers. A failure of width
  adaptation is the failure of the lowering.
\<close>


subsection \<open>Element byte width\<close>

lemma numRecords_static:
  "shape t = map Static sizes \<Longrightarrow>
     numRecords t m =
       Inr (createI32Constant (word_of_int (prod_list sizes * elementByteWidth t)))"
proof -
  assume st: "shape t = map Static sizes"
  have "list_all (\<lambda>d. \<not> isDynamic d) (map Static sizes)"
    by (induction sizes) simp_all
  then have "hasStaticShape t" by (simp add: hasStaticShape_def st)
  moreover have "getNumElements t = prod_list sizes"
    by (simp add: getNumElements_def st comp_def)
  ultimately show ?thesis by (simp add: numRecords_def)
qed

text \<open>
  C10. The element byte width is the element bit width divided by 8, rounding down, and
  the byte width constant has that value. For an element type narrower than 8 bits it is
  0; then every static byte stride, the extra index offset constant and the static record
  count are the constant 0, and the lowering succeeds as for any other element width: on
  a supported chipset, with an adapted data type, a strided layout and no more indices
  than strides.
\<close>

theorem narrow_element_byte_width:
  "elementByteWidth t = uint (elementTypeBitWidth t) div 8 \<and>
   8 * elementByteWidth t \<le> uint (elementTypeBitWidth t) \<and>
   uint (elementTypeBitWidth t) < 8 * elementByteWidth t + 8 \<and>
   eval s (byteWidthConst t) = Some (uint (elementTypeBitWidth t) div 8) \<and>
   (elementTypeBitWidth t < 8 \<longrightarrow>
      elementByteWidth t = 0 \<and>
      eval s (byteWidthConst t) = Some 0 \<and>
      strideOp t m (Static k) i = ConstantOp i32 0 \<and>
      eval s (strideOp t m (Static k) i) = Some 0 \<and>
      extraOffsetConst t off = ConstantOp i32 0 \<and>
      eval s (extraOffsetConst t off) = Some 0 \<and>
      (shape t = map Static sizes \<longrightarrow>
         numRecords t m = Inr (ConstantOp i32 0) \<and> eval s (ConstantOp i32 0) = Some 0) \<and>
      (memrefType gpuOp = t \<and> 9 \<le> majorVersion c \<and> wantedDataType gpuOp = Inr wanted \<and>
       llvmBufferValType wanted = Inr bufTy \<and>
       stridesAndOffset t = Some (strides, offset) \<and>
       length (indices gpuOp) \<le> length strides
         \<longrightarrow> (\<exists>r. matchAndRewrite c gpuOp = Inr r)))"
proof -
  have d: "elementByteWidth t = uint (elementTypeBitWidth t) div 8"
    by (simp add: elementByteWidth_def zdiv_int)
  have b: "8 * elementByteWidth t \<le> uint (elementTypeBitWidth t)"
    "uint (elementTypeBitWidth t) < 8 * elementByteWidth t + 8"
    unfolding d by presburger+
  have e: "eval s (byteWidthConst t) = Some (uint (elementTypeBitWidth t) div 8)"
    using eval_byteWidthConst [of s t] d by simp
  have n: "elementByteWidth t = 0 \<and>
      eval s (byteWidthConst t) = Some 0 \<and>
      strideOp t m (Static k) i = ConstantOp i32 0 \<and>
      eval s (strideOp t m (Static k) i) = Some 0 \<and>
      extraOffsetConst t off = ConstantOp i32 0 \<and>
      eval s (extraOffsetConst t off) = Some 0 \<and>
      (shape t = map Static sizes \<longrightarrow>
         numRecords t m = Inr (ConstantOp i32 0) \<and> eval s (ConstantOp i32 0) = Some 0) \<and>
      (memrefType gpuOp = t \<and> 9 \<le> majorVersion c \<and> wantedDataType gpuOp = Inr wanted \<and>
       llvmBufferValType wanted = Inr bufTy \<and>
       stridesAndOffset t = Some (strides, offset) \<and>
       length (indices gpuOp) \<le> length strides
         \<longrightarrow> (\<exists>r. matchAndRewrite c gpuOp = Inr r))"
    if lt: "elementTypeBitWidth t < 8"
  proof -
    have "unat (elementTypeBitWidth t) < 8"
      using lt by (simp add: word_less_nat_alt)
    then have z: "elementByteWidth t = 0"
      by (simp add: elementByteWidth_def)
    have c0: "createI32Constant 0 = ConstantOp i32 0"
      by (simp add: createI32Constant_def)
    have nr: "numRecords t m = Inr (ConstantOp i32 0)" if "shape t = map Static sizes"
      using numRecords_static [OF that, of m] z c0 by simp
    have su: "\<exists>r. matchAndRewrite c gpuOp = Inr r"
      if "memrefType gpuOp = t \<and> 9 \<le> majorVersion c \<and> wantedDataType gpuOp = Inr wanted \<and>
          llvmBufferValType wanted = Inr bufTy \<and> stridesAndOffset t = Some (strides, offset) \<and>
          length (indices gpuOp) \<le> length strides"
      using that matchAndRewrite_succeeds [of c gpuOp wanted bufTy strides offset] by blast
    show ?thesis
      using z c0 nr su eval_byteWidthConst [of s t]
      by (simp add: strideOp_def extraOffsetConst_def)
  qed
  from d b e n show ?thesis by blast
qed

theorem narrow_element_byte_width_witness:
  "elementByteWidth memref_16xi12 = 1 \<and>
   eval env0 (byteWidthConst memref_16xi12) = Some 1 \<and>
   elementByteWidth memref_4x8xf32 = 4 \<and>
   eval env0 (byteWidthConst memref_4x8xf32) = Some 4 \<and>
   elementTypeBitWidth memref_4x8xi1 < 8 \<and>
   elementByteWidth memref_4x8xi1 = 0 \<and>
   eval env0 (byteWidthConst memref_4x8xi1) = Some 0 \<and>
   eval env0 (strideOp memref_4x8xi1 (Arg (memref load_i1)) (Static 8) 0) = Some 0 \<and>
   eval env0 (extraOffsetConst memref_4x8xi1 5) = Some 0 \<and>
   numRecords memref_4x8xi1 (Arg (memref load_i1)) = Inr (ConstantOp i32 0) \<and>
   (\<exists>r. matchAndRewrite gfx908 load_i1 = Inr r)"
proof -
  have w: "uint (elementTypeBitWidth memref_16xi12) div 8 = 1"
    "uint (elementTypeBitWidth memref_4x8xf32) div 8 = 4"
    by (simp_all add: memref_16xi12_def memref_4x8xf32_def)
  have h: "elementTypeBitWidth memref_4x8xi1 < 8" by (simp add: memref_4x8xi1_def)
  have s: "shape memref_4x8xi1 = map Static [4, 8]" by (simp add: memref_4x8xi1_def)
  have p: "memrefType load_i1 = memref_4x8xi1 \<and> 9 \<le> majorVersion gfx908 \<and>
      wantedDataType load_i1 = Inr (Scalar (IntegerType 1)) \<and>
      llvmBufferValType (Scalar (IntegerType 1)) = Inr (Scalar (IntegerType 1)) \<and>
      stridesAndOffset memref_4x8xi1 = Some ([Static 8, Static 1], Static 0) \<and>
      length (indices load_i1) \<le> length [Static 8, Static 1]"
    by (simp add: load_i1_def memref_4x8xi1_def gfx908_def wantedDataType_def storeData_def
        convertType_def)
  have 1: "elementByteWidth memref_16xi12 = 1 \<and>
           eval env0 (byteWidthConst memref_16xi12) = Some 1"
    using narrow_element_byte_width [of memref_16xi12 env0] w by simp
  have 2: "elementByteWidth memref_4x8xf32 = 4 \<and>
           eval env0 (byteWidthConst memref_4x8xf32) = Some 4"
    using narrow_element_byte_width [of memref_4x8xf32 env0] w by simp
  show ?thesis
    using 1 2 h s p
      narrow_element_byte_width [of memref_4x8xi1 env0 "Arg (memref load_i1)" 8 0 5 "[4, 8]"
        load_i1 gfx908 "Scalar (IntegerType 1)" "Scalar (IntegerType 1)"
        "[Static 8, Static 1]" "Static 0"]
    by blast
qed

subsection \<open>Scalar offset\<close>

lemma sgprOffsetOperand_lowered:
  assumes "matchAndRewrite c gpuOp = Inr r"
  shows "\<exists>strides offset.
           stridesAndOffset (memrefType gpuOp) = Some (strides, offset) \<and>
           sgprOffsetOperand r =
             Some (sgprOffsetArg (Arg (memref gpuOp)) offset (sgprOffset gpuOp))"
  using matchAndRewrite_Inr [OF assms] by (auto simp: sgprOffsetOperand_def)

lemma word_of_int_take_bit_32: "(word_of_int (take_bit 32 x) :: 32 word) = word_of_int x"
  by (simp add: word_of_int_eq_iff)

lemma take_bit_32_uint: "take_bit 32 (uint w) = uint w" for w :: "32 word"
proof (rule take_bit_int_eq_self)
  show "0 \<le> uint w" by simp
  show "uint w < 2 ^ 32" using unsigned_less [of w] by simp
qed

lemma take_bit_32_add_right: "take_bit 32 (a + take_bit 32 b) = take_bit 32 (a + b)" for a b :: int
  by (simp add: take_bit_eq_mod mod_simps)

lemma take_bit_32_add_left: "take_bit 32 (take_bit 32 a + b) = take_bit 32 (a + b)" for a b :: int
  by (simp add: take_bit_eq_mod mod_simps)

lemma take_bit_32_mult_right: "take_bit 32 (a * take_bit 32 b) = take_bit 32 (a * b)" for a b :: int
  by (simp add: take_bit_eq_mod mod_simps)

lemma take_bit_32_mult_left: "take_bit 32 (take_bit 32 a * b) = take_bit 32 (a * b)" for a b :: int
  by (simp add: take_bit_eq_mod mod_simps)

text \<open>
  C1 (the static offset is added as a 32-bit constant). The scalar offset of every lowered
  operation starts from the dynamic offset operand when there is one and from the
  constant 0 otherwise. When the offset of the layout is dynamic, the offset field of the
  descriptor is added to it; when it is static and nonzero, that constant is added,
  truncated to 32 bits; when it is 0, nothing is added. The 32-bit value of the operand is
  the offset plus the addend, modulo \<open>2^32\<close>. Static offsets are unsigned.
\<close>

theorem sgprOffset_value:
  assumes "matchAndRewrite c gpuOp = Inr r"
  shows "\<exists>strides offset sg base.
           stridesAndOffset (memrefType gpuOp) = Some (strides, offset) \<and>
           sgprOffsetOperand r = Some sg \<and>
           base = (case sgprOffset gpuOp of Some a \<Rightarrow> Arg a | None \<Rightarrow> ConstantOp i32 0) \<and>
           (offset = Dynamic \<longrightarrow> sg = AddOp (DescOffset (Arg (memref gpuOp))) base) \<and>
           (\<forall>k. offset = Static k \<and> 0 \<le> k \<and> k \<noteq> 0 \<longrightarrow>
              sg = AddOp base (ConstantOp i32 (sint (word_of_int k :: 32 word))) \<and>
              eval s (ConstantOp i32 (sint (word_of_int k :: 32 word))) = Some (take_bit 32 k)) \<and>
           (offset = Static 0 \<longrightarrow> sg = base) \<and>
           ((\<forall>a. sgprOffset gpuOp = Some a \<longrightarrow> snd a = i32) \<longrightarrow>
              (\<exists>addend.
                 addend = (case sgprOffset gpuOp of
                             Some a \<Rightarrow> word_of_int (argV s (fst a)) | None \<Rightarrow> 0) \<and>
                 offsetOperand s base = Some addend \<and>
                 (offset = Dynamic \<longrightarrow>
                    offsetOperand s sg = Some (word_of_nat (offsetV s) + addend)) \<and>
                 (\<forall>k. offset = Static k \<and> 0 \<le> k \<longrightarrow>
                    offsetOperand s sg = Some (word_of_int k + addend) \<and>
                    eval s sg = Some (take_bit 32 (k + uint addend)))))"
proof -
  obtain strides offset where so:
    "stridesAndOffset (memrefType gpuOp) = Some (strides, offset)"
    and sg: "sgprOffsetOperand r =
      Some (sgprOffsetArg (Arg (memref gpuOp)) offset (sgprOffset gpuOp))"
    using sgprOffsetOperand_lowered [OF assms] by blast
  define base where
    "base = (case sgprOffset gpuOp of Some a \<Rightarrow> Arg a | None \<Rightarrow> ConstantOp i32 0)"
  define sgv where "sgv = sgprOffsetArg (Arg (memref gpuOp)) offset (sgprOffset gpuOp)"
  define addend :: "32 word" where
    "addend = (case sgprOffset gpuOp of Some a \<Rightarrow> word_of_int (argV s (fst a)) | None \<Rightarrow> 0)"
  have c0: "createI32Constant 0 = ConstantOp i32 0"
    by (simp add: createI32Constant_def)
  have ck: "createI32Constant (word_of_int k) = ConstantOp i32 (sint (word_of_int k :: 32 word))"
    for k by (simp add: createI32Constant_def)
  have ek: "eval s (ConstantOp i32 (sint (word_of_int k :: 32 word))) = Some (take_bit 32 k)"
    for k using eval_createI32Constant [of s "word_of_int k"]
    by (simp add: ck take_bit_word_of_int)
  have d: "offset = Dynamic \<longrightarrow> sgv = AddOp (DescOffset (Arg (memref gpuOp))) base"
    by (simp add: sgv_def sgprOffsetArg_def base_def c0 split: option.splits)
  have p: "\<forall>k. offset = Static k \<and> 0 \<le> k \<and> k \<noteq> 0 \<longrightarrow>
      sgv = AddOp base (ConstantOp i32 (sint (word_of_int k :: 32 word))) \<and>
      eval s (ConstantOp i32 (sint (word_of_int k :: 32 word))) = Some (take_bit 32 k)"
    using ek by (auto simp: sgv_def sgprOffsetArg_def base_def c0 ck split: option.splits)
  have z: "offset = Static 0 \<longrightarrow> sgv = base"
    by (simp add: sgv_def sgprOffsetArg_def base_def c0 split: option.splits)
  have v: "offsetOperand s base = Some addend \<and>
      (offset = Dynamic \<longrightarrow> offsetOperand s sgv = Some (word_of_nat (offsetV s) + addend)) \<and>
      (\<forall>k. offset = Static k \<and> 0 \<le> k \<longrightarrow>
         offsetOperand s sgv = Some (word_of_int k + addend) \<and>
         eval s sgv = Some (take_bit 32 (k + uint addend)))"
    if ty: "\<forall>a. sgprOffset gpuOp = Some a \<longrightarrow> snd a = i32"
  proof -
    have tb: "typeOf base = i32"
      using ty by (auto simp: base_def split: option.splits)
    have eb: "eval s base = Some (uint addend)"
      using ty
      by (auto simp: base_def addend_def take_bit_word_of_int split: option.splits)
    then have ob: "offsetOperand s base = Some addend"
      by (simp add: offsetOperand_def)
    have dy: "offsetOperand s sgv = Some (word_of_nat (offsetV s) + addend)"
      if "offset = Dynamic"
      using that d eb by (simp add: offsetOperand_def lift2_def)
    have st: "offsetOperand s sgv = Some (word_of_int k + addend) \<and>
              eval s sgv = Some (take_bit 32 (k + uint addend))"
      if k: "offset = Static k \<and> 0 \<le> k" for k
    proof (cases "k = 0")
      case True
      then show ?thesis
        using k z eb ob by (simp add: take_bit_32_uint)
    next
      case False
      then have "sgv = AddOp base (ConstantOp i32 (sint (word_of_int k :: 32 word)))"
        using p k by blast
      then have e: "eval s sgv = Some (take_bit 32 (k + uint addend))"
        using eb tb ek [of k]
        by (simp add: lift2_def take_bit_32_add_right add.commute)
      then show ?thesis
        by (simp add: offsetOperand_def word_of_int_take_bit_32)
    qed
    from ob dy st show ?thesis by blast
  qed
  show ?thesis
    using so sg d p z v unfolding sgv_def base_def addend_def by blast
qed

lemma load_offset_succeeds: "\<exists>r. matchAndRewrite gfx908 (load_offset off so) = Inr r"
  by (rule matchAndRewrite_succeeds [where wanted = "Scalar (FloatType 32)"
        and bufTy = "Scalar (FloatType 32)" and strides = "[Static 1]" and offset = off])
     (simp_all add: load_offset_def gfx908_def wantedDataType_def storeData_def
        convertType_def)

theorem sgprOffset_value_witness:
  "(\<exists>r. matchAndRewrite gfx908 load_offset_16 = Inr r \<and>
        sgprOffsetOperand r = Some (AddOp (Arg (''j'', i32)) (ConstantOp i32 16)) \<and>
        argV env1 ''j'' = 4294967295 \<and>
        eval env1 (AddOp (Arg (''j'', i32)) (ConstantOp i32 16)) = Some 15 \<and>
        offsetOperand env1 (AddOp (Arg (''j'', i32)) (ConstantOp i32 16)) = Some 15) \<and>
   (\<exists>r. matchAndRewrite gfx908 load_offset_dyn = Inr r \<and>
        sgprOffsetOperand r =
          Some (AddOp (DescOffset (Arg (''buf'', LLVMStructType))) (ConstantOp i32 0)) \<and>
        offsetOperand env1
          (AddOp (DescOffset (Arg (''buf'', LLVMStructType))) (ConstantOp i32 0)) = Some 7) \<and>
   (\<exists>r. matchAndRewrite gfx908 load_offset_0 = Inr r \<and>
        sgprOffsetOperand r = Some (ConstantOp i32 0) \<and>
        offsetOperand env1 (ConstantOp i32 0) = Some 0)"
proof -
  have 1: "\<exists>r. matchAndRewrite gfx908 load_offset_16 = Inr r \<and>
      sgprOffsetOperand r = Some (AddOp (Arg (''j'', i32)) (ConstantOp i32 16)) \<and>
      argV env1 ''j'' = 4294967295 \<and>
      eval env1 (AddOp (Arg (''j'', i32)) (ConstantOp i32 16)) = Some 15 \<and>
      offsetOperand env1 (AddOp (Arg (''j'', i32)) (ConstantOp i32 16)) = Some 15"
  proof -
    obtain r where r: "matchAndRewrite gfx908 load_offset_16 = Inr r"
      using load_offset_succeeds by (auto simp: load_offset_16_def)
    have so: "stridesAndOffset (memrefType load_offset_16) = Some ([Static 1], Static 16)"
      and sp: "sgprOffset load_offset_16 = Some (''j'', i32)"
      by (simp_all add: load_offset_16_def load_offset_def)
    have j: "argV env1 ''j'' = 4294967295" by (simp add: env1_def)
    obtain sg where sg: "sgprOffsetOperand r = Some sg"
      and v: "sg = AddOp (Arg (''j'', i32)) (ConstantOp i32 (sint (word_of_int 16 :: 32 word)))"
        "offsetOperand env1 sg = Some (word_of_int 16 + word_of_int (argV env1 ''j''))"
        "eval env1 sg = Some (take_bit 32 (16 + uint (word_of_int (argV env1 ''j'') :: 32 word)))"
      using sgprOffset_value [OF r, of env1] so sp by force
    from r sg v j show ?thesis by simp
  qed
  have 2: "\<exists>r. matchAndRewrite gfx908 load_offset_dyn = Inr r \<and>
      sgprOffsetOperand r =
        Some (AddOp (DescOffset (Arg (''buf'', LLVMStructType))) (ConstantOp i32 0)) \<and>
      offsetOperand env1
        (AddOp (DescOffset (Arg (''buf'', LLVMStructType))) (ConstantOp i32 0)) = Some 7"
  proof -
    obtain r where r: "matchAndRewrite gfx908 load_offset_dyn = Inr r"
      using load_offset_succeeds by (auto simp: load_offset_dyn_def)
    have so: "stridesAndOffset (memrefType load_offset_dyn) = Some ([Static 1], Dynamic)"
      and sp: "sgprOffset load_offset_dyn = None"
      and m: "memref load_offset_dyn = (''buf'', LLVMStructType)"
      by (simp_all add: load_offset_dyn_def load_offset_def)
    have o: "offsetV env1 = 7" by (simp add: env1_def)
    obtain sg where sg: "sgprOffsetOperand r = Some sg"
      and v: "sg = AddOp (DescOffset (Arg (memref load_offset_dyn))) (ConstantOp i32 0)"
        "offsetOperand env1 sg = Some (word_of_nat (offsetV env1) + 0)"
      using sgprOffset_value [OF r, of env1] so sp by force
    from r sg v m o show ?thesis by simp
  qed
  have 3: "\<exists>r. matchAndRewrite gfx908 load_offset_0 = Inr r \<and>
      sgprOffsetOperand r = Some (ConstantOp i32 0) \<and>
      offsetOperand env1 (ConstantOp i32 0) = Some 0"
  proof -
    obtain r where r: "matchAndRewrite gfx908 load_offset_0 = Inr r"
      using load_offset_succeeds by (auto simp: load_offset_0_def)
    have so: "stridesAndOffset (memrefType load_offset_0) = Some ([Static 1], Static 0)"
      and sp: "sgprOffset load_offset_0 = None"
      by (simp_all add: load_offset_0_def load_offset_def)
    obtain sg where sg: "sgprOffsetOperand r = Some sg"
      and v: "sg = ConstantOp i32 0" "offsetOperand env1 sg = Some (word_of_int 0 + 0)"
      using sgprOffset_value [OF r, of env1] so sp by force
    from r sg v show ?thesis by simp
  qed
  from 1 2 3 show ?thesis by blast
qed

theorem sgprOffset_value_counterexample:
  "stridesAndOffset (memrefType load_offset_big) = Some ([Static 1], Static 4294967312) \<and>
   sgprOffset load_offset_big = None \<and>
   loweredSgprOffset gfx908 load_offset_big =
     Some (AddOp (ConstantOp i32 0) (ConstantOp i32 16)) \<and>
   eval env0 (AddOp (ConstantOp i32 0) (ConstantOp i32 16)) = Some 16"
  by (simp add: loweredSgprOffset_def matchAndRewrite_def load_offset_big_def load_offset_def
      gfx908_def wantedDataType_def storeData_def convertType_def numRecords_def
      hasStaticShape_def voffsetArg_def extraOffset_def sgprOffsetOperand_def
      sgprOffsetArg_def createI32Constant_def storeArgs_def lift2_def Let_def)

subsection \<open>Record count\<close>

lemma hasStaticShape_iff: "hasStaticShape t \<longleftrightarrow> Dynamic \<notin> set (shape t)"
proof -
  have "list_all (\<lambda>d. \<not> isDynamic d) ds \<longleftrightarrow> Dynamic \<notin> set ds" for ds
  proof (induction ds)
    case Nil
    show ?case by simp
  next
    case (Cons d ds)
    then show ?case by (cases d) auto
  qed
  then show ?thesis by (simp add: hasStaticShape_def)
qed

lemma eval_maxIndexLoop:
  assumes "eval s acc = Some a" and "typeOf acc = IndexType"
  shows "\<exists>v. maxIndexLoop m (byteWidthConst t) is (Some acc) = Some v \<and>
             typeOf v = IndexType \<and>
             eval s v =
               Some (fold max
                      (map (\<lambda>i. int (sizeV s i) * (int (strideV s i) * elementByteWidth t)) is)
                      a)"
  using assms
proof (induction "is" arbitrary: acc a)
  case Nil
  then show ?case by simp
next
  case (Cons i "is")
  let ?d = "MulOp (DescSize m i) (MulOp (DescStride m i) (byteWidthConst t))"
  have e: "eval s (MaximumOp acc ?d) =
        Some (max a (int (sizeV s i) * (int (strideV s i) * elementByteWidth t)))"
    using Cons.prems by (simp add: lift2_def eval_byteWidthConst)
  have ty: "typeOf (MaximumOp acc ?d) = IndexType"
    using Cons.prems by simp
  from Cons.IH [OF e ty] show ?case
    by (simp add: Let_def max.commute)
qed

lemma eval_maxIndexLoop_None:
  assumes "is \<noteq> []"
  shows "\<exists>v. maxIndexLoop m (byteWidthConst t) is None = Some v \<and>
             eval s v =
               Some (Max ((\<lambda>i. int (sizeV s i) * (int (strideV s i) * elementByteWidth t)) `
                          set is))"
proof -
  obtain i js where ij: "is = i # js" using assms by (cases "is") auto
  let ?f = "\<lambda>i. int (sizeV s i) * (int (strideV s i) * elementByteWidth t)"
  let ?d = "MulOp (DescSize m i) (MulOp (DescStride m i) (byteWidthConst t))"
  have e: "eval s ?d = Some (?f i)" by (simp add: lift2_def eval_byteWidthConst)
  have ty: "typeOf ?d = IndexType" by simp
  from eval_maxIndexLoop [OF e ty, of m t js]
  obtain v where v: "maxIndexLoop m (byteWidthConst t) js (Some ?d) = Some v"
    and ev: "eval s v = Some (fold max (map ?f js) (?f i))" by blast
  have "Max (?f ` set is) = Max (set (?f i # map ?f js))" by (simp add: ij)
  also have "\<dots> = fold max (map ?f js) (?f i)" by (rule Max.set_eq_fold)
  finally show ?thesis using v ev by (simp add: ij Let_def)
qed

text \<open>
  C3 (the static record count is truncated to 32 bits). Word 2 of the descriptor of every
  lowered operation is the record count. When the sizes of all dimensions are static it
  is a constant: the product of the sizes times the element byte width, truncated to 32
  bits. When some size is dynamic it is code that evaluates to the maximum over the
  dimensions \<open>i\<close> of \<open>size i * stride i * elementByteWidth\<close>, taken from the descriptor
  fields, truncated to 32 bits.
\<close>

theorem numRecords_value:
  "(matchAndRewrite c gpuOp = Inr r \<longrightarrow>
      (\<exists>res nr. descriptorArg r = Some res \<and> extractElement res 2 = Some nr \<and>
                numRecords (memrefType gpuOp) (Arg (memref gpuOp)) = Inr nr)) \<and>
   (shape t = map Static sizes \<longrightarrow>
      (\<exists>w. numRecords t m = Inr (ConstantOp i32 w) \<and>
           eval s (ConstantOp i32 w) =
             Some (take_bit 32 (prod_list sizes * elementByteWidth t)))) \<and>
   (Dynamic \<in> set (shape t) \<longrightarrow>
      (\<exists>v. numRecords t m = Inr v \<and>
           eval s v =
             Some (take_bit 32
                    (Max ((\<lambda>i. int (sizeV s i) * int (strideV s i) * elementByteWidth t) `
                          {..< length (shape t)})))))"
proof -
  have "\<exists>res nr. descriptorArg r = Some res \<and> extractElement res 2 = Some nr \<and>
                numRecords (memrefType gpuOp) (Arg (memref gpuOp)) = Inr nr"
    if "matchAndRewrite c gpuOp = Inr r"
    using descriptorArg_lowered [OF that] by (auto simp: extractElement_resource)
  moreover have "\<exists>w. numRecords t m = Inr (ConstantOp i32 w) \<and>
      eval s (ConstantOp i32 w) = Some (take_bit 32 (prod_list sizes * elementByteWidth t))"
    if st: "shape t = map Static sizes"
  proof -
    let ?P = "prod_list sizes * elementByteWidth t"
    have "numRecords t m = Inr (ConstantOp i32 (sint (word_of_int ?P :: 32 word)))"
      using numRecords_static [OF st, of m] by (simp add: createI32Constant_def)
    moreover have "eval s (ConstantOp i32 (sint (word_of_int ?P :: 32 word))) =
                   Some (take_bit 32 ?P)"
      using eval_createI32Constant [of s "word_of_int ?P"]
      by (simp only: createI32Constant_def take_bit_word_of_int)
    ultimately show ?thesis by blast
  qed
  moreover have "\<exists>v. numRecords t m = Inr v \<and>
      eval s v = Some (take_bit 32
        (Max ((\<lambda>i. int (sizeV s i) * int (strideV s i) * elementByteWidth t) `
              {..< length (shape t)})))"
    if dy: "Dynamic \<in> set (shape t)"
  proof -
    have ns: "\<not> hasStaticShape t" using dy by (simp add: hasStaticShape_iff)
    have "shape t \<noteq> []" using dy by auto
    then have ne: "[0 ..< getRank t] \<noteq> []" by (simp add: getRank_def)
    obtain v where v: "maxIndexLoop m (byteWidthConst t) [0 ..< getRank t] None = Some v"
      and e: "eval s v =
        Some (Max ((\<lambda>i. int (sizeV s i) * (int (strideV s i) * elementByteWidth t)) `
                   set [0 ..< getRank t]))"
      using eval_maxIndexLoop_None [OF ne, of m t s] by blast
    have "set [0 ..< getRank t] = {..< length (shape t)}"
      by (auto simp: getRank_def)
    with e have "eval s (TruncOp (convertType i32) v) = Some (take_bit 32
        (Max ((\<lambda>i. int (sizeV s i) * int (strideV s i) * elementByteWidth t) `
              {..< length (shape t)})))"
      by (simp add: lift1_def convertType_def mult.assoc)
    with ns v show ?thesis by (simp add: numRecords_def)
  qed
  ultimately show ?thesis by blast
qed

theorem numRecords_value_witness:
  "(\<exists>r. matchAndRewrite gfx908 load_4x8 = Inr r \<and>
       (\<exists>res. descriptorArg r = Some res \<and>
              extractElement res 2 = Some (ConstantOp i32 128))) \<and>
   shape memref_4x8xf32 = map Static [4, 8] \<and>
   numRecords memref_4x8xf32 (Arg (memref load_4x8)) = Inr (ConstantOp i32 128) \<and>
   eval env0 (ConstantOp i32 128) = Some 128 \<and>
   shape memref_64xi8 = map Static [64] \<and>
   numRecords memref_64xi8 (Arg (memref load_4x8)) = Inr (ConstantOp i32 64) \<and>
   Dynamic \<in> set (shape memref_dynx8xf32) \<and>
   (\<exists>v. numRecords memref_dynx8xf32 (Arg (memref load_dynx8)) = Inr v \<and>
        eval env1 v = Some 100)"
proof -
  obtain r where r: "matchAndRewrite gfx908 load_4x8 = Inr r"
    using load_4x8_succeeds [of gfx908] by (auto simp: gfx908_def)
  have st: "shape memref_4x8xf32 = map Static [4, 8]"
    by (simp add: memref_4x8xf32_def)
  have st8: "shape memref_64xi8 = map Static [64]"
    by (simp add: memref_64xi8_def)
  have bw: "elementByteWidth memref_4x8xf32 = 4" "elementByteWidth memref_dynx8xf32 = 4"
    "elementByteWidth memref_64xi8 = 1"
    by (simp_all add: elementByteWidth_def memref_4x8xf32_def memref_dynx8xf32_def
        memref_64xi8_def)
  have mt: "memrefType load_4x8 = memref_4x8xf32" by (simp add: load_4x8_def)
  obtain w where w: "numRecords memref_4x8xf32 (Arg (memref load_4x8)) = Inr (ConstantOp i32 w)"
    and ew: "eval env0 (ConstantOp i32 w) = Some (take_bit 32 (prod_list [4, 8] * 4))"
    using numRecords_value [of gfx908 load_4x8 r memref_4x8xf32 "[4, 8]"
        "Arg (memref load_4x8)" env0] st bw
    by auto
  have w128: "w = 128"
    using w numRecords_static [OF st, of "Arg (memref load_4x8)"] bw
    by (simp add: createI32Constant_def)
  have nr: "numRecords memref_4x8xf32 (Arg (memref load_4x8)) = Inr (ConstantOp i32 128)"
    using w w128 by simp
  have e128: "eval env0 (ConstantOp i32 128) = Some 128"
    using ew w128 by simp
  obtain w8 where w8: "numRecords memref_64xi8 (Arg (memref load_4x8)) = Inr (ConstantOp i32 w8)"
    using numRecords_value [of gfx908 load_4x8 r memref_64xi8 "[64]"
        "Arg (memref load_4x8)" env0] st8
    by auto
  have nr8: "numRecords memref_64xi8 (Arg (memref load_4x8)) = Inr (ConstantOp i32 64)"
    using w8 numRecords_static [OF st8, of "Arg (memref load_4x8)"] bw
    by (simp add: createI32Constant_def)
  have lw: "\<exists>res. descriptorArg r = Some res \<and>
                 extractElement res 2 = Some (ConstantOp i32 128)"
    using numRecords_value [of gfx908 load_4x8 r memref_4x8xf32 "[4, 8]"
        "Arg (memref load_4x8)"] r nr mt
    by auto
  have dy: "Dynamic \<in> set (shape memref_dynx8xf32)"
    by (simp add: memref_dynx8xf32_def)
  have len: "length (shape memref_dynx8xf32) = Suc (Suc 0)"
    by (simp add: memref_dynx8xf32_def)
  have mx: "Max ((\<lambda>i. int (sizeV env1 i) * int (strideV env1 i) *
                      elementByteWidth memref_dynx8xf32) ` {..< Suc (Suc 0)}) = 100"
    by (simp add: env1_def bw lessThan_Suc)
  have "\<exists>v. numRecords memref_dynx8xf32 (Arg (memref load_dynx8)) = Inr v \<and>
            eval env1 v = Some 100"
    using numRecords_value [of gfx908 load_4x8 r memref_dynx8xf32 "[]"
        "Arg (memref load_dynx8)" env1] dy len mx
    by simp
  with r lw st nr e128 st8 nr8 dy show ?thesis by blast
qed

theorem numRecords_value_counterexample:
  "shape memref_64Kx64Kxf32 = map Static [65536, 65536] \<and>
   prod_list [65536, 65536] * elementByteWidth memref_64Kx64Kxf32 = 17179869184 \<and>
   numRecords memref_64Kx64Kxf32 (Arg (memref load_64Kx64K)) = Inr (ConstantOp i32 0) \<and>
   loweredWord gfx908 load_64Kx64K 2 = Some (ConstantOp i32 0) \<and>
   eval env0 (ConstantOp i32 0) = Some 0"
  by (simp add: memref_64Kx64Kxf32_def load_64Kx64K_def elementByteWidth_def numRecords_def
      hasStaticShape_def getNumElements_def createI32Constant_def loweredWord_def
      matchAndRewrite_def gfx908_def wantedDataType_def storeData_def convertType_def
      voffsetArg_def extraOffset_def descriptorArg_def storeArgs_def resource_def
      createIndexConstant_def Let_def)

subsection \<open>Vector offset\<close>

lemma eval_strideOp:
  "\<exists>x. eval s (strideOp t m d i) = Some x \<and>
       take_bit 32 (a * x) = take_bit 32 (a * byteStrideV s t d i)"
proof (cases d)
  case Dynamic
  then show ?thesis
    by (simp add: strideOp_def byteStrideV_def lift2_def eval_byteWidthConst)
next
  case (Static k)
  have "eval s (createI32Constant (word_of_int (k * elementByteWidth t))) =
        Some (take_bit 32 (k * elementByteWidth t))"
    by (simp only: eval_createI32Constant take_bit_word_of_int)
  with Static show ?thesis
    by (simp add: strideOp_def byteStrideV_def take_bit_32_mult_right)
qed

lemma eval_index_term:
  assumes "snd idx = i32"
  shows "eval s (MulOp (Arg idx) (strideOp t m d i)) =
           Some (take_bit 32 (argV s (fst idx) * byteStrideV s t d i))"
proof -
  obtain x where x: "eval s (strideOp t m d i) = Some x"
    and tx: "take_bit 32 (argV s (fst idx) * x) =
             take_bit 32 (argV s (fst idx) * byteStrideV s t d i)"
    using eval_strideOp [of s t m d i "argV s (fst idx)"] by blast
  show ?thesis
    using assms x tx by (simp add: lift2_def take_bit_32_mult_left)
qed

lemma eval_voffsetLoop:
  assumes "voffsetLoop t m strides ps acc = Inr vo"
    and "\<forall>p \<in> set ps. snd (snd p) = i32"
    and "acc = None \<or> (\<exists>w. acc = Some w \<and> typeOf w = i32 \<and> eval s w = Some (take_bit 32 a))"
    and "acc = None \<longrightarrow> a = 0"
  shows "(vo = None \<longleftrightarrow> acc = None \<and> ps = []) \<and>
         (\<forall>v. vo = Some v \<longrightarrow>
            typeOf v = i32 \<and>
            eval s v =
              Some (take_bit 32
                     (a + (\<Sum>(i, idx) \<leftarrow> ps.
                             argV s (fst idx) * byteStrideV s t (strides ! i) i))))"
  using assms
proof (induction ps arbitrary: acc a)
  case Nil
  then show ?case by auto
next
  case (Cons p ps)
  obtain i idx where p: "p = (i, idx)" by (cases p)
  let ?x = "argV s (fst idx) * byteStrideV s t (strides ! i) i"
  let ?index = "MulOp (Arg idx) (strideOp t m (strides ! i) i)"
  let ?acc' = "case acc of Some v \<Rightarrow> AddOp v ?index | None \<Rightarrow> ?index"
  from Cons.prems(1) have rec: "voffsetLoop t m strides ps (Some ?acc') = Inr vo"
    by (auto simp: p Let_def split: if_splits)
  have ty: "snd idx = i32" using Cons.prems(2) by (simp add: p)
  have ix: "eval s ?index = Some (take_bit 32 ?x)"
    using ty by (rule eval_index_term)
  have ev: "typeOf ?acc' = i32 \<and> eval s ?acc' = Some (take_bit 32 (a + ?x))"
    using Cons.prems(3,4) ix ty
    by (auto simp: lift2_def take_bit_32_add_left take_bit_32_add_right)
  have rest: "\<forall>p \<in> set ps. snd (snd p) = i32" using Cons.prems(2) by simp
  from Cons.IH [OF rec rest, of "a + ?x"] ev
  show ?case by (auto simp: p add.assoc)
qed

text \<open>
  With at least one index or an index offset the vector offset is code of type
  \<^verbatim>\<open>i32\<close>; its value is the sum over the dimensions of the index times the byte
  stride, plus the index offset times the element byte width, modulo \<open>2^32\<close>.
\<close>

lemma voffsetArg_value:
  assumes "voffsetArg t m strides idxs io = Inr vo"
    and "\<forall>idx \<in> set idxs. snd idx = i32"
  shows "(vo = None \<longleftrightarrow> idxs = [] \<and> io = None) \<and>
         (\<forall>v. vo = Some v \<longrightarrow>
            eval s v =
              Some (take_bit 32
                     ((\<Sum>(i, idx) \<leftarrow> enumerate 0 idxs.
                         argV s (fst idx) * byteStrideV s t (strides ! i) i) +
                      (case io of
                         None \<Rightarrow> 0
                       | Some off \<Rightarrow> uint off * elementByteWidth t))))"
proof -
  obtain vl where vl: "voffsetLoop t m strides (enumerate 0 idxs) None = Inr vl"
    and vo: "vo = extraOffset t io vl"
    using assms(1) by (auto simp: voffsetArg_def split: sum.splits)
  have tys: "\<forall>p \<in> set (enumerate 0 idxs). snd (snd p) = i32"
  proof
    fix p assume "p \<in> set (enumerate 0 idxs)"
    then have "fst p < length idxs \<and> idxs ! fst p = snd p"
      by (auto simp: in_set_enumerate_eq)
    then have "snd p \<in> set idxs" using nth_mem by metis
    then show "snd (snd p) = i32" using assms(2) by blast
  qed
  note l = eval_voffsetLoop [OF vl tys, where a = 0 and s = s, simplified]
  have en: "enumerate 0 idxs = [] \<longleftrightarrow> idxs = []"
    by (cases idxs) simp_all
  have ex: "eval s (extraOffsetConst t off) = Some (take_bit 32 (uint off * elementByteWidth t))"
    "typeOf (extraOffsetConst t off) = i32" for off
    by (simp_all only: extraOffsetConst_def eval_createI32Constant take_bit_word_of_int
        typeOf_createI32Constant)
  show ?thesis
  proof (cases io)
    case None
    then show ?thesis using l vo en by (auto simp: extraOffset_def)
  next
    case (Some off)
    then show ?thesis
      using l vo en ex [of off]
      by (cases vl)
         (auto simp: extraOffset_def lift2_def take_bit_32_add_left take_bit_32_add_right)
  qed
qed

text \<open>
  C2. With at least one index or an index offset the vector offset is code whose value is
  the sum over the dimensions of the index times the byte stride, plus the index offset
  times the element byte width (lemma \<open>voffsetArg_value\<close>). With no index and no index
  offset the source leaves the \<^verbatim>\<open>Value\<close> null and passes it to the intrinsic: no
  zero constant is created, unlike for the scalar offset. The theorem runs the lowering on
  a load from \<^verbatim>\<open>memref<f32>\<close>.
\<close>

theorem voffset_null_without_indices:
  "map_sum id args (matchAndRewrite gfx908 load_rank0) =
     Inr [Some (resource gfx908 True (Arg (''buf'', LLVMStructType)) (createI32Constant 4)),
          None,
          Some (createI32Constant 0),
          Some (createI32Constant 0)]"
  by (simp add: matchAndRewrite_def load_rank0_def gfx908_def
      wantedDataType_def storeData_def convertType_def numRecords_def hasStaticShape_def
      getNumElements_def elementByteWidth_def
      voffsetArg_def extraOffset_def sgprOffsetArg_def storeArgs_def Let_def)

subsection \<open>Width adaptation of vectors\<close>

text \<open>
  For a vector of \<open>n\<close> elements of \<open>B\<close> bits whose total width \<open>n * B\<close> is below
  \<open>2^32\<close>, width adaptation follows the total width: above 128 it fails; otherwise
  \<open>B \<ge> 32\<close> keeps the logical type; \<open>B < 32\<close> and a total of at most 32 gives the
  integer of that width; \<open>B < 32\<close> and a greater total fails unless the total is a
  multiple of 32, and then gives the vector of \<open>total / 32\<close> 32-bit integers. A failure
  of width adaptation is the failure of the lowering.
\<close>

lemma width_adaptation:
  fixes n :: nat and e :: elem_type
  defines "B \<equiv> getIntOrFloatBitWidth e"
  defines "tot \<equiv> n * B"
  assumes "tot < 2 ^ 32"
  shows "(tot > 128 \<longrightarrow>
            llvmBufferValType (VectorType n e) = Inl (TotalWidthTooLarge tot)) \<and>
         (tot \<le> 128 \<and> B \<ge> 32 \<longrightarrow>
            llvmBufferValType (VectorType n e) = Inr (VectorType n e)) \<and>
         (B < 32 \<and> tot \<le> 32 \<longrightarrow>
            llvmBufferValType (VectorType n e) = Inr (Scalar (IntegerType tot))) \<and>
         (B < 32 \<and> 32 < tot \<and> tot \<le> 128 \<and> tot mod 32 \<noteq> 0 \<longrightarrow>
            llvmBufferValType (VectorType n e) = Inl DoesNotFitIntoWords) \<and>
         (B < 32 \<and> 32 < tot \<and> tot \<le> 128 \<and> tot mod 32 = 0 \<longrightarrow>
            llvmBufferValType (VectorType n e) =
              Inr (VectorType (tot div 32) (IntegerType 32))) \<and>
         (9 \<le> majorVersion c \<and> wantedDataType gpuOp = Inr t \<and> llvmBufferValType t = Inl err
            \<longrightarrow> matchAndRewrite c gpuOp = Inl err)"
proof -
  have tb: "totalBitsOf n e = tot"
    using assms(3) by (simp add: totalBitsOf_def tot_def B_def mult.commute)
  have "9 \<le> majorVersion c \<and> wantedDataType gpuOp = Inr t \<and>
      llvmBufferValType t = Inl err \<longrightarrow> matchAndRewrite c gpuOp = Inl err"
    using matchAndRewrite_width_error(1) by blast
  then show ?thesis
    by (simp add: tb Let_def maxVectorOpWidth_def convertType_def B_def)
qed

lemma width_adaptation_samples:
  "llvmBufferValType (VectorType 8 (FloatType 32)) = Inl (TotalWidthTooLarge 256)"
  "llvmBufferValType (VectorType 4 (FloatType 32)) = Inr (VectorType 4 (FloatType 32))"
  "llvmBufferValType (VectorType 4 (IntegerType 8)) = Inr (Scalar (IntegerType 32))"
  "llvmBufferValType (VectorType 3 (IntegerType 16)) = Inl DoesNotFitIntoWords"
  "llvmBufferValType (VectorType 8 (FloatType 16)) = Inr (VectorType 4 (IntegerType 32))"
  "matchAndRewrite gfx908 store_8xf32 = Inl (TotalWidthTooLarge 256)"
proof -
  show 2: "llvmBufferValType (VectorType 8 (FloatType 32)) = Inl (TotalWidthTooLarge 256)"
    using width_adaptation [of 8 "FloatType 32"] by simp
  show "llvmBufferValType (VectorType 4 (FloatType 32)) = Inr (VectorType 4 (FloatType 32))"
    using width_adaptation [of 4 "FloatType 32"] by simp
  show "llvmBufferValType (VectorType 4 (IntegerType 8)) = Inr (Scalar (IntegerType 32))"
    using width_adaptation [of 4 "IntegerType 8"] by simp
  show "llvmBufferValType (VectorType 3 (IntegerType 16)) = Inl DoesNotFitIntoWords"
    using width_adaptation [of 3 "IntegerType 16"] by simp
  show "llvmBufferValType (VectorType 8 (FloatType 16)) = Inr (VectorType 4 (IntegerType 32))"
    using width_adaptation [of 8 "FloatType 16"] by simp
  have wt: "wantedDataType store_8xf32 = Inr (VectorType 8 (FloatType 32))"
    by (simp add: wantedDataType_def storeData_def store_8xf32_def)
  have c: "9 \<le> majorVersion gfx908" by (simp add: gfx908_def)
  show "matchAndRewrite gfx908 store_8xf32 = Inl (TotalWidthTooLarge 256)"
    using matchAndRewrite_width_error(1) [OF c wt 2] .
qed


subsection \<open>Reinterpretation casts\<close>

lemma wire_type_differs:
  assumes "llvmBufferValType T = Inr W" and "W \<noteq> T"
  shows "\<exists>n e. T = VectorType n e \<and> getIntOrFloatBitWidth e < 32 \<and>
               totalBitsOf n e \<le> 128 \<and>
               (if totalBitsOf n e > 32
                then totalBitsOf n e mod 32 = 0 \<and>
                     W = VectorType (totalBitsOf n e div 32) (IntegerType 32)
                else W = Scalar (IntegerType (totalBitsOf n e)))"
proof (cases "isVectorType T")
  case False
  then show ?thesis using assms llvmBufferValType_not_vector by auto
next
  case True
  then obtain n e where T: "T = VectorType n e" by (cases T) auto
  show ?thesis
    using assms unfolding T
    by (auto simp: Let_def maxVectorOpWidth_def convertType_def split: if_splits)
qed

lemma wire_type_bits:
  assumes "llvmBufferValType T = Inr W" and "W \<noteq> T"
    and "typeBits T = Some k" and "k < 2 ^ 32"
  shows "typeBits W = Some k"
proof -
  obtain n e where T: "T = VectorType n e"
    and W: "if totalBitsOf n e > 32
            then totalBitsOf n e mod 32 = 0 \<and>
                 W = VectorType (totalBitsOf n e div 32) (IntegerType 32)
            else W = Scalar (IntegerType (totalBitsOf n e))"
    using wire_type_differs [OF assms(1,2)] by blast
  have "k = n * getIntOrFloatBitWidth e" using assms(3) T by simp
  then have tb: "totalBitsOf n e = k"
    using assms(4) by (simp add: totalBitsOf_def mult.commute)
  show ?thesis
  proof (cases "k > 32")
    case True
    with W tb have "k mod 32 = 0" and "W = VectorType (k div 32) (IntegerType 32)"
      by simp_all
    then show ?thesis by auto
  next
    case False
    with W tb show ?thesis by simp
  qed
qed

text \<open>
  Let \<open>T\<close> be a logical type of fewer than \<open>2^32\<close> bits whose wire type \<open>W\<close> differs
  from \<open>T\<close>. Then \<open>W\<close> has as many bits as \<open>T\<close>; the lowered store passes the
  \<^verbatim>\<open>BitcastOp\<close> of its data operand to \<open>W\<close>; the lowered load declares a result of
  type \<open>W\<close> and replaces the operation by the \<^verbatim>\<open>BitcastOp\<close> of that result to \<open>T\<close>;
  and a bit pattern of \<open>T\<close> that is stored and then loaded comes back unchanged.
\<close>

lemma bitcast_round_trip:
  assumes "llvmBufferValType T = Inr W" and "W \<noteq> T"
    and "typeBits T = Some k" and "k < 2 ^ 32"
    and "matchAndRewrite c st = Inr rs" and "storeData st = Some (x, T)"
    and "matchAndRewrite c' ld = Inr rl" and "storeData ld = None"
    and "resultTypes ld = [T]"
    and "length b = k"
  shows "typeBits W = Some k \<and>
         dataOperand rs = Some (BitcastOp W (Arg (x, T))) \<and>
         callResultTypes rl = [W] \<and>
         rewrite rl = ReplaceOp (BitcastOp T (LoweredResult W 0)) \<and>
         storeThenLoad rs rl b = Some b"
proof -
  have wb: "typeBits W = Some k" using wire_type_bits [OF assms(1-4)] .
  have ws: "wantedDataType st = Inr T"
    using assms(6) by (simp add: wantedDataType_def)
  have wl: "wantedDataType ld = Inr T"
    using assms(8,9) by (simp add: wantedDataType_def)
  obtain a1 a2 a3 a4 where "args rs = storeArgs st W (convertType T) @ [a1, a2, a3, a4]"
    using matchAndRewrite_Inr [OF assms(5)] ws assms(1) by auto
  then have d: "dataOperand rs = Some (BitcastOp W (Arg (x, T)))"
    using assms(2,6) by (simp add: dataOperand_def storeArgs_def convertType_def)
  have l: "callResultTypes rl = [W]"
    "rewrite rl = ReplaceOp (BitcastOp T (LoweredResult W 0))"
    using matchAndRewrite_Inr [OF assms(7)] wl assms(1,2,9)
    by (auto simp: finish_def convertType_def)
  have "storeThenLoad rs rl b = Some b"
    using d l wb assms(3,10) by (simp add: storeThenLoad_def holds_def)
  with wb d l show ?thesis by blast
qed

lemma bitcast_round_trip_sample:
  "\<exists>rs rl.
     matchAndRewrite gfx908 (store_i8_vector 4) = Inr rs \<and>
     matchAndRewrite gfx908 (load_i8_vector 4) = Inr rl \<and>
     dataOperand rs = Some (BitcastOp i32 (Arg (''v'', VectorType 4 (IntegerType 8)))) \<and>
     callResultTypes rl = [i32] \<and>
     rewrite rl = ReplaceOp (BitcastOp (VectorType 4 (IntegerType 8)) (LoweredResult i32 0)) \<and>
     storeThenLoad rs rl (replicate 32 True) = Some (replicate 32 True)"
proof -
  let ?T = "VectorType 4 (IntegerType 8)"
  have w: "llvmBufferValType ?T = Inr i32"
    using width_adaptation_samples(3) .
  have ne: "i32 \<noteq> ?T" by simp
  have tb: "typeBits ?T = Some 32" "(32::nat) < 2 ^ 32" by simp_all
  have sd: "storeData (store_i8_vector 4) = Some (''v'', ?T)"
    by (simp add: storeData_def store_i8_vector_def)
  have ld: "storeData (load_i8_vector 4) = None" "resultTypes (load_i8_vector 4) = [?T]"
    by (simp_all add: storeData_def load_i8_vector_def)
  have c: "9 \<le> majorVersion gfx908" by (simp add: gfx908_def)
  obtain rs where rs: "matchAndRewrite gfx908 (store_i8_vector 4) = Inr rs"
    using matchAndRewrite_succeeds [of gfx908 "store_i8_vector 4" ?T i32 "[Static 1]" "Static 0"]
      c w sd
    by (auto simp: wantedDataType_def store_i8_vector_def memref_64xi8_def)
  obtain rl where rl: "matchAndRewrite gfx908 (load_i8_vector 4) = Inr rl"
    using matchAndRewrite_succeeds [of gfx908 "load_i8_vector 4" ?T i32 "[Static 1]" "Static 0"]
      c w ld
    by (auto simp: wantedDataType_def load_i8_vector_def memref_64xi8_def)
  have len: "length (replicate 32 True) = 32" by simp
  show ?thesis
    using rs rl bitcast_round_trip [OF w ne tb rs sd rl ld len]
    by blast
qed


subsection \<open>The static scenario\<close>

text \<open>
  The load from \<^verbatim>\<open>memref<4x8xf32>\<close> with strides \<open>[8, 1]\<close> and offset 0 at
  \<open>[2, 3]\<close>: the operands after the descriptor evaluate to the vector offset
  \<open>(2 * 8 + 3 * 1) * 4 = 76\<close>, the scalar offset 0 and the flags 0, and the record count
  is the constant \<open>4 * 8 * 4 = 128\<close>.
\<close>

lemma load_4x8_lowered:
  "matchAndRewrite gfx908 load_4x8 =
     Inr \<lparr>callee = ROCDL_RawBufferLoadOp,
          callResultTypes = [Scalar (FloatType 32)],
          args = [Some (resource gfx908 True (Arg (''buf'', LLVMStructType))
                          (createI32Constant 128)),
                  Some (AddOp (MulOp (Arg (''i'', i32)) (createI32Constant 32))
                              (MulOp (Arg (''j'', i32)) (createI32Constant 4))),
                  Some (createI32Constant 0),
                  Some (createI32Constant 0)],
          rewrite = ReplaceOp (LoweredResult (Scalar (FloatType 32)) 0)\<rparr>"
  by (simp add: matchAndRewrite_def load_4x8_def memref_4x8xf32_def gfx908_def
      wantedDataType_def storeData_def convertType_def numRecords_def hasStaticShape_def
      getNumElements_def elementByteWidth_def voffsetArg_def extraOffset_def strideOp_def
      sgprOffsetArg_def storeArgs_def finish_def Let_def)

lemma load_4x8_offsets:
  "eval env0 (AddOp (MulOp (Arg (''i'', i32)) (createI32Constant 32))
                    (MulOp (Arg (''j'', i32)) (createI32Constant 4))) = Some 76"
  by (simp add: env0_def lift2_def createI32Constant_def)

end
